theory Spec2Isabelle
  imports Complex_Main "HOL-Library.Product_Lexorder"
begin

section \<open>CSV export (downloadCSV)\<close>

text \<open>
  The export works on an array of plain objects. A row is modelled as the list of its
  own (key, value) pairs in the order \<^verbatim>\<open>Object.keys\<close> enumerates them. Every value is
  turned into text by \<^verbatim>\<open>String(value)\<close> before anything else is done with it, so a
  number or boolean cell is represented by that text; only \<^verbatim>\<open>null\<close> and
  \<^verbatim>\<open>undefined\<close> are kept apart, because the source tests for them.
  The keys of an object are pairwise different; where a list here repeats a key, the
  first pair is the property. A key is taken not to be the name of a property every
  object inherits (\<^verbatim>\<open>toString\<close>, \<^verbatim>\<open>constructor\<close>, ...).
  Characters are bytes here; the four characters the source looks at are ASCII.
\<close>

datatype jsvalue = JNull | JUndefined | JString string

type_synonym csv_row = "(string \<times> jsvalue) list"

abbreviation DQUOTE :: char where "DQUOTE \<equiv> CHR 0x22"
abbreviation NEWLINE :: char where "NEWLINE \<equiv> CHR 0x0A"
abbreviation SEMI :: char where "SEMI \<equiv> CHR '';''"
abbreviation COMMA :: char where "COMMA \<equiv> CHR '',''"

text \<open>\<^verbatim>\<open>acc.add(key)\<close> on a JavaScript Set: insertion order, no duplicates.\<close>

definition set_add :: "string list \<Rightarrow> string \<Rightarrow> string list" where
  "set_add acc k = (if k \<in> set acc then acc else acc @ [k])"

text \<open>\<^verbatim>\<open>rows.reduce((acc, row) => { for (const key of Object.keys(row)) acc.add(key); return acc; }, new Set())\<close>\<close>

definition colSet :: "csv_row list \<Rightarrow> string list" where
  "colSet rows = foldl (\<lambda>acc row. foldl set_add acc (map fst row)) [] rows"

text \<open>\<^verbatim>\<open>r[c]\<close>: the value of an own property, \<^verbatim>\<open>undefined\<close> when the row has none.\<close>

definition get_prop :: "csv_row \<Rightarrow> string \<Rightarrow> jsvalue" where
  "get_prop r c = (case map_of r c of None \<Rightarrow> JUndefined | Some v \<Rightarrow> v)"

text \<open>\<^verbatim>\<open>value == null ? "" : String(value)\<close>\<close>

fun to_str :: "jsvalue \<Rightarrow> string" where
  "to_str JNull = []"
| "to_str JUndefined = []"
| "to_str (JString s) = s"

text \<open>\<^verbatim>\<open>/[",\n;]/.test(str)\<close>\<close>

definition needs_quotes :: "string \<Rightarrow> bool" where
  "needs_quotes str = (\<exists>c \<in> set str. c = DQUOTE \<or> c = COMMA \<or> c = NEWLINE \<or> c = SEMI)"

text \<open>\<^verbatim>\<open>str.replace(/"/g, '""')\<close>\<close>

fun double_quotes :: "string \<Rightarrow> string" where
  "double_quotes [] = []"
| "double_quotes (c # cs) =
     (if c = DQUOTE then DQUOTE # DQUOTE # double_quotes cs else c # double_quotes cs)"

definition escape :: "jsvalue \<Rightarrow> string" where
  "escape v = (let str = to_str v in
     if needs_quotes str then [DQUOTE] @ double_quotes str @ [DQUOTE] else str)"

text \<open>\<^verbatim>\<open>Array.prototype.join\<close>\<close>

fun join :: "string \<Rightarrow> string list \<Rightarrow> string" where
  "join sep [] = []"
| "join sep [x] = x"
| "join sep (x # y # ys) = x @ sep @ join sep (y # ys)"

text \<open>
  The text handed to the Blob:
  \<^verbatim>\<open>[cols.join(";"), ...rows.map((r) => cols.map((c) => escape(r[c])).join(";"))].join("\n")\<close>
\<close>

definition csv_line :: "string list \<Rightarrow> csv_row \<Rightarrow> string" where
  "csv_line cols r = join [SEMI] (map (\<lambda>c. escape (get_prop r c)) cols)"

definition downloadCSV :: "csv_row list \<Rightarrow> string" where
  "downloadCSV rows = (let cols = colSet rows in
     join [NEWLINE] (join [SEMI] cols # map (csv_line cols) rows))"

text \<open>
  The order in which keys are met for the first time, written the way the claim words
  it: walk all keys of all rows and keep each key where it occurs first.
\<close>

fun first_encounter :: "string list \<Rightarrow> string list" where
  "first_encounter [] = []"
| "first_encounter (k # ks) = k # filter (\<lambda>x. x \<noteq> k) (first_encounter ks)"

subsection \<open>A reader for the exported text\<close>

text \<open>
  Modelled from the spec: the repository has no CSV reader; the round trip of section 8
  needs one. This is the reader the export format of section 6 describes: fields
  separated by semicolons, records by line feeds, a field that starts with a double
  quote runs to the closing quote, and a doubled quote inside it stands for one quote.
\<close>

datatype pstate = FieldStart | Unquoted | Quoted | QuoteEnd

fun scan :: "pstate \<Rightarrow> string \<Rightarrow> string list \<Rightarrow> string \<Rightarrow> string list list" where
  "scan st cur fs [] = [fs @ [cur]]"
| "scan FieldStart cur fs (c # cs) =
     (if c = DQUOTE then scan Quoted cur fs cs
      else if c = SEMI then scan FieldStart [] (fs @ [cur]) cs
      else if c = NEWLINE then (fs @ [cur]) # scan FieldStart [] [] cs
      else scan Unquoted (cur @ [c]) fs cs)"
| "scan Unquoted cur fs (c # cs) =
     (if c = SEMI then scan FieldStart [] (fs @ [cur]) cs
      else if c = NEWLINE then (fs @ [cur]) # scan FieldStart [] [] cs
      else scan Unquoted (cur @ [c]) fs cs)"
| "scan Quoted cur fs (c # cs) =
     (if c = DQUOTE then scan QuoteEnd cur fs cs
      else scan Quoted (cur @ [c]) fs cs)"
| "scan QuoteEnd cur fs (c # cs) =
     (if c = DQUOTE then scan Quoted (cur @ [DQUOTE]) fs cs
      else if c = SEMI then scan FieldStart [] (fs @ [cur]) cs
      else if c = NEWLINE then (fs @ [cur]) # scan FieldStart [] [] cs
      else scan Unquoted (cur @ [c]) fs cs)"

definition parse_csv :: "string \<Rightarrow> string list list" where
  "parse_csv text = scan FieldStart [] [] text"

text \<open>A column name the header line can carry unescaped.\<close>

definition plain :: "string \<Rightarrow> bool" where
  "plain s = (DQUOTE \<notin> set s \<and> SEMI \<notin> set s \<and> NEWLINE \<notin> set s)"

text \<open>What may follow a complete field: the end of the text, a semicolon or a line feed.\<close>

definition sep_start :: "string \<Rightarrow> bool" where
  "sep_start rest = (case rest of [] \<Rightarrow> True | c # _ \<Rightarrow> c = SEMI \<or> c = NEWLINE)"

text \<open>
  A piece of text \<open>t\<close> carries the value \<open>v\<close> when the reader, starting a field at \<open>t\<close>,
  has read exactly \<open>v\<close> once \<open>t\<close> is used up.
\<close>

definition enc :: "string \<Rightarrow> string \<Rightarrow> bool" where
  "enc t v = (\<forall>fs rest. sep_start rest \<longrightarrow> scan FieldStart [] fs (t @ rest) = scan Unquoted v fs rest)"


subsection \<open>Reading back what was written\<close>

lemma scan_sep_start:
  "sep_start rest \<Longrightarrow> scan FieldStart cur fs rest = scan Unquoted cur fs rest"
  "sep_start rest \<Longrightarrow> scan QuoteEnd cur fs rest = scan Unquoted cur fs rest"
  by (cases rest, auto simp: sep_start_def)+

lemma scan_unquoted_run:
  "SEMI \<notin> set s \<Longrightarrow> NEWLINE \<notin> set s \<Longrightarrow>
   scan Unquoted cur fs (s @ rest) = scan Unquoted (cur @ s) fs rest"
  by (induction s arbitrary: cur) auto

lemma scan_plain_field:
  assumes "plain s" "sep_start rest"
  shows "scan FieldStart [] fs (s @ rest) = scan Unquoted s fs rest"
proof (cases s)
  case Nil
  with assms show ?thesis by (simp add: scan_sep_start)
next
  case (Cons c cs)
  with assms have "c \<noteq> DQUOTE" "c \<noteq> SEMI" "c \<noteq> NEWLINE" "SEMI \<notin> set cs" "NEWLINE \<notin> set cs"
    by (auto simp: plain_def)
  then show ?thesis using Cons scan_unquoted_run [of cs "[c]" fs rest] by simp
qed

lemma scan_quoted_run:
  "scan Quoted cur fs (double_quotes s @ DQUOTE # rest) = scan QuoteEnd (cur @ s) fs rest"
  by (induction s arbitrary: cur) auto

lemma not_needs_quotes_plain: "\<not> needs_quotes s \<Longrightarrow> plain s"
  by (auto simp: needs_quotes_def plain_def)

lemma enc_plain: "plain s \<Longrightarrow> enc s s"
  by (simp add: enc_def scan_plain_field)

lemma enc_escape: "enc (escape v) (to_str v)"
proof (cases "needs_quotes (to_str v)")
  case True
  then show ?thesis
    by (simp add: enc_def escape_def scan_quoted_run scan_sep_start)
next
  case False
  then show ?thesis
    by (simp add: escape_def enc_plain not_needs_quotes_plain)
qed

lemma scan_row:
  "list_all2 enc ts vs \<Longrightarrow> ts \<noteq> [] \<Longrightarrow> rest = [] \<or> hd rest = NEWLINE \<and> rest \<noteq> [] \<Longrightarrow>
   scan FieldStart [] fs (join [SEMI] ts @ rest) = scan Unquoted (last vs) (fs @ butlast vs) rest"
proof (induction ts arbitrary: vs fs)
  case Nil
  then show ?case by simp
next
  case (Cons t ts)
  then obtain v vs' where vs: "vs = v # vs'" and tv: "enc t v" and rest: "list_all2 enc ts vs'"
    by (auto simp: list_all2_Cons1)
  show ?case
  proof (cases ts)
    case Nil
    with rest have "vs' = []" by simp
    moreover have "sep_start rest" using Cons.prems(3) by (cases rest) (auto simp: sep_start_def)
    ultimately show ?thesis using tv Nil vs by (simp add: enc_def)
  next
    case (Cons t' ts')
    then have ne: "ts \<noteq> []" by simp
    have "vs' \<noteq> []" using rest Cons by auto
    have "sep_start (SEMI # join [SEMI] ts @ rest)" by (simp add: sep_start_def)
    then have "scan FieldStart [] fs (t @ SEMI # join [SEMI] ts @ rest)
        = scan Unquoted v fs (SEMI # join [SEMI] ts @ rest)"
      using tv by (simp add: enc_def)
    also have "\<dots> = scan FieldStart [] (fs @ [v]) (join [SEMI] ts @ rest)" by simp
    also have "\<dots> = scan Unquoted (last vs') ((fs @ [v]) @ butlast vs') rest"
      using Cons.IH [OF rest ne Cons.prems(3)] .
    finally show ?thesis using Cons vs \<open>vs' \<noteq> []\<close> by simp
  qed
qed

lemma scan_table:
  "list_all2 (list_all2 enc) tss vss \<Longrightarrow> tss \<noteq> [] \<Longrightarrow> \<forall>ts \<in> set tss. ts \<noteq> [] \<Longrightarrow>
   scan FieldStart [] [] (join [NEWLINE] (map (join [SEMI]) tss)) = vss"
proof (induction tss arbitrary: vss)
  case Nil
  then show ?case by simp
next
  case (Cons ts tss)
  then obtain vs vss' where vss: "vss = vs # vss'" and tv: "list_all2 enc ts vs"
    and rest: "list_all2 (list_all2 enc) tss vss'"
    by (auto simp: list_all2_Cons1)
  have ts: "ts \<noteq> []" using Cons.prems by simp
  then have vsne: "vs \<noteq> []" using tv by auto
  show ?case
  proof (cases tss)
    case Nil
    with rest have "vss' = []" by simp
    then show ?thesis using Nil vss scan_row [OF tv ts, of "[]" "[]"] vsne by simp
  next
    case (Cons ts' tss')
    then have ne: "tss \<noteq> []" by simp
    have ih: "scan FieldStart [] [] (join [NEWLINE] (map (join [SEMI]) tss)) = vss'"
      using Cons.IH [OF rest ne] Cons.prems by simp
    have "scan FieldStart [] [] (join [SEMI] ts @ NEWLINE # join [NEWLINE] (map (join [SEMI]) tss))
       = scan Unquoted (last vs) ([] @ butlast vs) (NEWLINE # join [NEWLINE] (map (join [SEMI]) tss))"
      using scan_row [OF tv ts, of "NEWLINE # join [NEWLINE] (map (join [SEMI]) tss)" "[]"] by simp
    then show ?thesis using Cons vss ih vsne by simp
  qed
qed

subsection \<open>The header\<close>

lemma set_first_encounter: "set (first_encounter ks) = set ks"
  by (induction ks) auto

lemma distinct_first_encounter: "distinct (first_encounter ks)"
  by (induction ks) (auto simp: set_first_encounter)

lemma foldl_set_add:
  "foldl set_add acc ks = acc @ filter (\<lambda>k. k \<notin> set acc) (first_encounter ks)"
proof (induction ks arbitrary: acc)
  case Nil
  then show ?case by simp
next
  case (Cons k ks)
  show ?case
  proof (cases "k \<in> set acc")
    case True
    have "filter (\<lambda>x. x \<notin> set acc) (filter (\<lambda>x. x \<noteq> k) (first_encounter ks))
        = filter (\<lambda>x. x \<notin> set acc) (first_encounter ks)"
      using True by (auto intro: filter_cong)
    then show ?thesis using True Cons.IH [of acc] by (simp add: set_add_def)
  next
    case False
    have "filter (\<lambda>x. x \<notin> set (acc @ [k])) (first_encounter ks)
        = filter (\<lambda>x. x \<notin> set acc) (filter (\<lambda>x. x \<noteq> k) (first_encounter ks))"
      by (auto intro: filter_cong)
    then show ?thesis using False Cons.IH [of "acc @ [k]"] by (simp add: set_add_def)
  qed
qed

lemma foldl_rows:
  "foldl (\<lambda>acc row. foldl set_add acc (map fst row)) acc rows
     = foldl set_add acc (concat (map (map fst) rows))"
  by (induction rows arbitrary: acc) simp_all

lemma colSet_first_encounter: "colSet rows = first_encounter (concat (map (map fst) rows))"
  unfolding colSet_def foldl_rows by (simp add: foldl_set_add)

lemma map_of_zip_map:
  "k \<in> set xs \<Longrightarrow> map_of (zip xs (map f xs)) k = Some (f k)"
  by (induction xs) auto

lemma csv_line_fun:
  "csv_line cols = (\<lambda>r. join [SEMI] (map (\<lambda>c. escape (get_prop r c)) cols))"
  by (rule ext) (simp add: csv_line_def)

lemma parse_downloadCSV:
  assumes ne: "colSet rows \<noteq> []" and pl: "\<forall>c \<in> set (colSet rows). plain c"
  shows "parse_csv (downloadCSV rows)
      = colSet rows # map (\<lambda>r. map (\<lambda>c. to_str (get_prop r c)) (colSet rows)) rows"
proof -
  define cols where "cols = colSet rows"
  define tss where "tss = cols # map (\<lambda>r. map (\<lambda>c. escape (get_prop r c)) cols) rows"
  define vss where "vss = cols # map (\<lambda>r. map (\<lambda>c. to_str (get_prop r c)) cols) rows"
  have hdr: "list_all2 enc cols cols"
    using pl by (simp add: cols_def list_all2_same enc_plain)
  have body: "list_all2 (list_all2 enc) (map (\<lambda>r. map (\<lambda>c. escape (get_prop r c)) cols) rows)
       (map (\<lambda>r. map (\<lambda>c. to_str (get_prop r c)) cols) rows)"
    by (simp add: list_all2_map1 list_all2_map2 list_all2_same enc_escape)
  have all: "list_all2 (list_all2 enc) tss vss"
    using hdr body by (simp add: tss_def vss_def)
  have nonempty: "\<forall>ts \<in> set tss. ts \<noteq> []"
    using ne by (auto simp: tss_def cols_def)
  have "tss \<noteq> []" by (simp add: tss_def)
  from scan_table [OF all this nonempty]
  have "scan FieldStart [] [] (join [NEWLINE] (map (join [SEMI]) tss)) = vss" .
  moreover have "downloadCSV rows = join [NEWLINE] (map (join [SEMI]) tss)"
    by (simp add: downloadCSV_def tss_def cols_def csv_line_fun Let_def comp_def)
  ultimately show ?thesis by (simp add: parse_csv_def vss_def cols_def)
qed







subsection \<open>The claims about the export\<close>

text \<open>
  Claim C4, as the code has it. The export is semicolon-delimited. A value is wrapped in
  double quotes exactly when its text contains a double quote, a comma, a line feed or a
  semicolon (the comma is in the source's pattern although it is no delimiter of this
  format), and then every quote inside it is doubled. The header line is written without
  any escaping, so the round trip needs at least one column and column names free of
  semicolons, quotes and line feeds. Under that condition, reading the exported text back
  gives the header and, for every row, the text of each of its cells; in particular every
  string value of every row is recovered exactly under its column name, whatever
  semicolons, commas, quotes or line feeds it contains.
\<close>

theorem csv_export_round_trip:
  assumes ne: "colSet rows \<noteq> []" and pl: "\<forall>c \<in> set (colSet rows). plain c"
  shows "escape v =
           (if DQUOTE \<in> set (to_str v) \<or> COMMA \<in> set (to_str v) \<or> NEWLINE \<in> set (to_str v) \<or> SEMI \<in> set (to_str v)
            then [DQUOTE] @ double_quotes (to_str v) @ [DQUOTE] else to_str v)
       \<and> parse_csv (downloadCSV rows)
           = colSet rows # map (\<lambda>r. map (\<lambda>c. to_str (get_prop r c)) (colSet rows)) rows
       \<and> (\<forall>i k s. i < length rows \<longrightarrow> map_of (rows ! i) k = Some (JString s) \<longrightarrow>
             map_of (zip (hd (parse_csv (downloadCSV rows))) (parse_csv (downloadCSV rows) ! Suc i)) k = Some s)"
proof (intro conjI allI impI)
  show "escape v =
           (if DQUOTE \<in> set (to_str v) \<or> COMMA \<in> set (to_str v) \<or> NEWLINE \<in> set (to_str v) \<or> SEMI \<in> set (to_str v)
            then [DQUOTE] @ double_quotes (to_str v) @ [DQUOTE] else to_str v)"
    by (auto simp: escape_def needs_quotes_def Let_def)
next
  show "parse_csv (downloadCSV rows)
           = colSet rows # map (\<lambda>r. map (\<lambda>c. to_str (get_prop r c)) (colSet rows)) rows"
    using ne pl by (rule parse_downloadCSV)
next
  fix i k s
  assume i: "i < length rows" and k: "map_of (rows ! i) k = Some (JString s)"
  have "(k, JString s) \<in> set (rows ! i)" using k by (rule map_of_SomeD)
  then have "k \<in> fst ` set (rows ! i)" by force
  then have "k \<in> set (concat (map (map fst) rows))" using i by auto
  then have kc: "k \<in> set (colSet rows)"
    by (simp only: colSet_first_encounter set_first_encounter)
  have "to_str (get_prop (rows ! i) k) = s" using k by (simp add: get_prop_def)
  then show "map_of (zip (hd (parse_csv (downloadCSV rows))) (parse_csv (downloadCSV rows) ! Suc i)) k = Some s"
    using i kc by (simp add: parse_downloadCSV [OF ne pl] map_of_zip_map)
qed

text \<open>The round trip at a row whose values hold a semicolon, a quote and a line feed.\<close>

theorem csv_export_round_trip_witness:
  "parse_csv (downloadCSV [[(''who'', JString ''a;b''), (''note'', JString [CHR ''q'', DQUOTE, NEWLINE])]])
     = [[''who'', ''note''], [''a;b'', [CHR ''q'', DQUOTE, NEWLINE]]]
   \<and> map_of (zip (hd (parse_csv (downloadCSV [[(''who'', JString ''a;b''), (''note'', JString [CHR ''q'', DQUOTE, NEWLINE])]])))
        (parse_csv (downloadCSV [[(''who'', JString ''a;b''), (''note'', JString [CHR ''q'', DQUOTE, NEWLINE])]]) ! Suc 0)) ''who''
     = Some ''a;b''"
proof -
  let ?rows = "[[(''who'', JString ''a;b''), (''note'', JString [CHR ''q'', DQUOTE, NEWLINE])]]"
  have cols: "colSet ?rows = [''who'', ''note'']" by (simp add: colSet_def set_add_def)
  have h1: "colSet ?rows \<noteq> []" by (simp add: cols)
  have h2: "\<forall>c \<in> set (colSet ?rows). plain c" by (simp add: cols plain_def)
  note rt = csv_export_round_trip [OF h1 h2, of JNull]
  have a: "parse_csv (downloadCSV ?rows) = [[''who'', ''note''], [''a;b'', [CHR ''q'', DQUOTE, NEWLINE]]]"
    using rt by (simp add: cols get_prop_def)
  have "0 < length ?rows \<longrightarrow> map_of (?rows ! 0) ''who'' = Some (JString ''a;b'') \<longrightarrow>
     map_of (zip (hd (parse_csv (downloadCSV ?rows))) (parse_csv (downloadCSV ?rows) ! Suc 0)) ''who'' = Some ''a;b''"
    using rt by blast
  then have b: "map_of (zip (hd (parse_csv (downloadCSV ?rows))) (parse_csv (downloadCSV ?rows) ! Suc 0)) ''who'' = Some ''a;b''"
    by simp
  from a b show ?thesis by (rule conjI)
qed

text \<open>
  Claim C4 as worded fails in two places. The value \<open>a,b\<close> contains no semicolon, no
  quote and no line feed, and the export still wraps it in quotes. And a \<^verbatim>\<open>null\<close> value
  is not recovered: the file written for it is the file written for the empty string, and
  reading it back gives the empty string.
\<close>

theorem csv_quote_counterexample:
  "escape (JString ''a,b'') = [DQUOTE] @ ''a,b'' @ [DQUOTE]
   \<and> SEMI \<notin> set ''a,b'' \<and> DQUOTE \<notin> set ''a,b'' \<and> NEWLINE \<notin> set ''a,b''
   \<and> downloadCSV [[(''a'', JNull)]] = downloadCSV [[(''a'', JString [])]]
   \<and> parse_csv (downloadCSV [[(''a'', JNull)]]) = [[''a''], [[]]]"
  by (simp add: escape_def needs_quotes_def downloadCSV_def colSet_def set_add_def csv_line_def
      get_prop_def parse_csv_def)



section \<open>Numbers and how they are displayed\<close>

text \<open>
  JavaScript numbers are binary64 floating point. They are idealised here as real numbers:
  the arithmetic of the model is exact, where the program rounds each result to the
  nearest binary64 value. The decimal constants of the source (0.05, 0.01, 1902.34)
  stand for the decimal fractions they are written as.
\<close>

text \<open>Decimal digits of a natural number, most significant first.\<close>

definition digit_char :: "nat \<Rightarrow> char" where
  "digit_char d = ''0123456789'' ! d"

fun dec :: "nat \<Rightarrow> string" where
  "dec n = (if n < 10 then [digit_char n] else dec (n div 10) @ [digit_char (n mod 10)])"








subsection \<open>The tax overlay of the earnings report\<close>




text \<open>
  The rows of the report table show \<^verbatim>\<open>it.amount\<close> as it is, and the report total is
  shown as \<^verbatim>\<open>repTotal ?? "-"\<close>; neither goes through \<^verbatim>\<open>formatMoneyUA\<close>.
\<close>

type_synonym date = "nat \<times> nat \<times> nat"

record report_item =
  it_paid_date :: date
  it_amount :: real
  it_candidate_name :: string
  it_client_name :: string
  it_vacancy_title :: string
  it_recruiter_name :: string
  it_application_id :: nat
  it_payment_id :: nat



subsection \<open>Properties of the displayed texts\<close>

declare dec.simps [simp del]



lemma dec_nonempty: "dec n \<noteq> []"
  by (subst dec.simps) simp













section \<open>The data of the CRM\<close>

text \<open>
  The tables of \<^verbatim>\<open>schema.sql\<close>, one record per table, their columns in the schema's
  order under a prefix that keeps the field names apart. Identifiers are the integer
  primary keys; a DATE column is a calendar date (year, month, day), ordered
  lexicographically; a nullable column is an option; DOUBLE PRECISION columns are reals
  (see the section on numbers); a timestamp is a number that grows.
  The \<^verbatim>\<open>status\<close> column holds one of the four values the forms offer.
\<close>

datatype status = New | InProcess | Rejected | Hired

datatype role = Admin | User

record client =
  cl_id :: nat
  cl_name :: string

record recruiter =
  rc_id :: nat
  rc_name :: string

record candidate =
  cd_id :: nat
  cd_full_name :: string
  cd_phone :: "string option"
  cd_email :: "string option"
  cd_notes :: "string option"

record vacancy =
  vc_id :: nat
  vc_client_id :: nat
  vc_title :: string
  vc_fee_amount :: real
  vc_city :: "string option"

record application =
  ap_id :: nat
  ap_candidate_id :: nat
  ap_vacancy_id :: nat
  ap_recruiter_id :: nat
  ap_date_contacted :: date
  ap_status :: status
  ap_rejection_date :: "date option"
  ap_start_date :: "date option"
  ap_paid :: bool
  ap_paid_date :: "date option"
  ap_payment_amount :: real
  ap_is_replacement :: bool
  ap_replacement_of_id :: "nat option"
  ap_replacement_note :: "string option"
  ap_created_at :: nat

record payment =
  pm_id :: nat
  pm_application_id :: nat
  pm_paid_date :: date
  pm_amount :: real
  pm_note :: "string option"
  pm_created_at :: nat

record user =
  us_id :: nat
  us_username :: string
  us_role :: role
  us_recruiter_id :: "nat option"

text \<open>
  The store: the rows of each table in insertion order, the next value of the SERIAL
  sequences (one counter serves all tables here) and the clock that stamps
  \<^verbatim>\<open>created_at\<close>.
\<close>

record db =
  clients :: "client list"
  recruiters :: "recruiter list"
  candidates :: "candidate list"
  vacancies :: "vacancy list"
  applications :: "application list"
  payments :: "payment list"
  next_id :: nat
  now :: nat

text \<open>
  A row of the pipeline list as the front end receives it. The fields are the ones
  \<^verbatim>\<open>App\<close> reads (\<^verbatim>\<open>row.id\<close>, \<^verbatim>\<open>row.candidate_name\<close>, ...), together with the
  recruiter id of the application. The edit form may blank \<^verbatim>\<open>date_contacted\<close>, so it
  is an option here.
\<close>

record pipeline_row =
  pr_id :: nat
  pr_candidate_name :: string
  pr_client_name :: string
  pr_vacancy_title :: string
  pr_vacancy_fee :: real
  pr_recruiter_name :: string
  pr_recruiter_id :: nat
  pr_date_contacted :: "date option"
  pr_status :: status
  pr_rejection_date :: "date option"
  pr_start_date :: "date option"
  pr_paid :: bool
  pr_paid_date :: "date option"
  pr_payment_amount :: real
  pr_is_replacement :: bool
  pr_replacement_of_id :: "nat option"
  pr_replacement_note :: "string option"

text \<open>
The filter object of the pipeline view: \<^verbatim>\<open>{client_id, recruiter_id, status, search}\<close>.
\<close>

record filters =
  f_client_id :: "nat option"
  f_recruiter_id :: "nat option"
  f_status :: "status option"
  f_search :: "string option"

subsection \<open>The replacement selector\<close>

text \<open>
  \<^verbatim>\<open>
  const replacementOptions = useMemo(() => {
      return pipeline.slice(0, 500);
  }, [pipeline]);
  \<close>
  Both the add form and the edit form render one \<^verbatim>\<open><option value={r.id}>\<close> per element
  of \<^verbatim>\<open>replacementOptions\<close> after the empty option; the value chosen becomes
  \<^verbatim>\<open>replacement_of_id\<close>.
\<close>

definition replacementOptions :: "pipeline_row list \<Rightarrow> pipeline_row list" where
  "replacementOptions pipeline = take 500 pipeline"

definition replacement_choices :: "pipeline_row list \<Rightarrow> nat option list" where
  "replacement_choices pipeline = None # map (\<lambda>r. Some (pr_id r)) (replacementOptions pipeline)"

text \<open>
A pipeline row with a given id, for concrete lists.
\<close>

definition sample_row :: "nat \<Rightarrow> pipeline_row" where
  "sample_row n = \<lparr>pr_id = n, pr_candidate_name = ''Ann'', pr_client_name = ''Acme'',
     pr_vacancy_title = ''Driver'', pr_vacancy_fee = 1000, pr_recruiter_name = ''Bob'',
     pr_recruiter_id = 1, pr_date_contacted = Some (2024, 3, 1), pr_status = New,
     pr_rejection_date = None, pr_start_date = None, pr_paid = False, pr_paid_date = None,
     pr_payment_amount = 0, pr_is_replacement = False, pr_replacement_of_id = None,
     pr_replacement_note = None\<rparr>"

text \<open>
  Claim C9. The selector offers the first 500 rows of the pipeline list, never more; when
  the ids of the list are pairwise different (they are primary keys), the application at
  any position from 500 on is not among the values that can be chosen.
\<close>

theorem replacement_options_first_500:
  "replacementOptions pipeline = take 500 pipeline
   \<and> length (replacementOptions pipeline) \<le> 500
   \<and> (\<forall>i. 500 \<le> i \<longrightarrow> i < length pipeline \<longrightarrow> distinct (map pr_id pipeline) \<longrightarrow>
          Some (pr_id (pipeline ! i)) \<notin> set (replacement_choices pipeline))"
proof (intro conjI allI impI)
  fix i
  assume i: "500 \<le> i" "i < length pipeline" and d: "distinct (map pr_id pipeline)"
  have "pr_id (pipeline ! i) \<notin> set (take 500 (map pr_id pipeline))"
  proof
    assume "pr_id (pipeline ! i) \<in> set (take 500 (map pr_id pipeline))"
    then obtain j where j: "j < length (take 500 (map pr_id pipeline))"
      "take 500 (map pr_id pipeline) ! j = pr_id (pipeline ! i)"
      by (auto simp: in_set_conv_nth)
    have j5: "j < 500" and jl: "j < length pipeline" using j(1) by simp_all
    have "map pr_id pipeline ! j = take 500 (map pr_id pipeline) ! j" using j5 by simp
    also have "\<dots> = map pr_id pipeline ! i" using j(2) i(2) by simp
    finally have "j = i" using d i(2) jl by (simp add: nth_eq_iff_index_eq del: nth_map)
    then show False using j5 i by simp
  qed
  then show "Some (pr_id (pipeline ! i)) \<notin> set (replacement_choices pipeline)"
    by (auto simp: replacement_choices_def replacementOptions_def take_map)
qed (simp_all add: replacementOptions_def)

text \<open>
A pipeline of 501 rows: the row at position 499 can be chosen, the one at position 500 cannot.
\<close>

theorem replacement_options_first_500_witness:
  "length (replacementOptions (map sample_row [0..<501])) = 500
   \<and> Some 500 \<notin> set (replacement_choices (map sample_row [0..<501]))
   \<and> Some 499 \<in> set (replacement_choices (map sample_row [0..<501]))"
proof -
  let ?p = "map sample_row [0..<501]"
  have ids: "map pr_id ?p = [0..<501]"
    by (simp add: comp_def sample_row_def del: upt_Suc)
  have h: "distinct (map pr_id ?p)" by (simp only: ids distinct_upt)
  have "500 \<le> (500::nat) \<longrightarrow> 500 < length ?p \<longrightarrow> distinct (map pr_id ?p) \<longrightarrow>
      Some (pr_id (?p ! 500)) \<notin> set (replacement_choices ?p)"
    using replacement_options_first_500 [of ?p] by blast
  moreover have "pr_id (?p ! 500) = 500" by (simp add: sample_row_def del: upt_Suc)
  ultimately have a: "Some 500 \<notin> set (replacement_choices ?p)" using h by simp
  have b: "length (replacementOptions ?p) = 500" by (simp add: replacementOptions_def)
  have "take 500 ?p = map sample_row [0..<500]" by (simp add: take_map del: upt_Suc)
  then have c: "Some 499 \<in> set (replacement_choices ?p)"
    by (simp add: replacement_choices_def replacementOptions_def sample_row_def image_iff comp_def del: upt_Suc)
  from a b c show ?thesis by simp
qed

section \<open>The server side\<close>

text \<open>
  The sources hold the schema and the front end; the request handlers of the server are
  not among them. What the claims need of them is modelled from the specification and
  from \<^verbatim>\<open>schema.sql\<close>. Every definition of this section is of that kind.
\<close>

text \<open>
  Modelled from the spec: the error taxonomy of section 7 (the handlers are missing).
\<close>

datatype error = ValidationError | NotFoundError | ReferentialIntegrityError | AuthorizationError

text \<open>
  Modelled from the spec: the joins of section 4.1 (the pipeline handler is missing). A
  name that cannot be found is empty; the foreign keys of \<^verbatim>\<open>schema.sql\<close> make every
  lookup succeed.
\<close>

definition candidate_name_of :: "db \<Rightarrow> nat \<Rightarrow> string" where
  "candidate_name_of d i = (case find (\<lambda>c. cd_id c = i) (candidates d) of None \<Rightarrow> [] | Some c \<Rightarrow> cd_full_name c)"

definition recruiter_name_of :: "db \<Rightarrow> nat \<Rightarrow> string" where
  "recruiter_name_of d i = (case find (\<lambda>r. rc_id r = i) (recruiters d) of None \<Rightarrow> [] | Some r \<Rightarrow> rc_name r)"

definition client_name_of :: "db \<Rightarrow> nat \<Rightarrow> string" where
  "client_name_of d i = (case find (\<lambda>c. cl_id c = i) (clients d) of None \<Rightarrow> [] | Some c \<Rightarrow> cl_name c)"

definition vacancy_of :: "db \<Rightarrow> nat \<Rightarrow> vacancy option" where
  "vacancy_of d i = find (\<lambda>v. vc_id v = i) (vacancies d)"

definition application_of :: "db \<Rightarrow> nat \<Rightarrow> application option" where
  "application_of d i = find (\<lambda>a. ap_id a = i) (applications d)"

text \<open>
  Modelled from the spec: \<^verbatim>\<open>list_payments\<close> of section 4.2 (the payment handlers are
  missing): the payments of one application, by \<^verbatim>\<open>paid_date\<close> ascending.
\<close>

definition list_payments :: "db \<Rightarrow> nat \<Rightarrow> payment list" where
  "list_payments d i = sort_key pm_paid_date (filter (\<lambda>p. pm_application_id p = i) (payments d))"

text \<open>
  Modelled from the spec: the ledger aggregate of section 4.2, \<^verbatim>\<open>last_paid_date\<close> as
  the largest \<^verbatim>\<open>paid_date\<close> or null.
\<close>

fun max_date :: "date list \<Rightarrow> date option" where
  "max_date [] = None"
| "max_date (x # xs) = (case max_date xs of None \<Rightarrow> Some x | Some y \<Rightarrow> Some (max x y))"

text \<open>
  Modelled from the spec: the row of section 4.1 for one application, joined with its
  candidate, vacancy, client and recruiter, the ledger aggregate in place of the legacy
  payment columns.
\<close>

definition pipeline_row_of :: "db \<Rightarrow> application \<Rightarrow> pipeline_row" where
  "pipeline_row_of d a =
     (let v = vacancy_of d (ap_vacancy_id a);
          pays = list_payments d (ap_id a)
      in \<lparr>pr_id = ap_id a,
          pr_candidate_name = candidate_name_of d (ap_candidate_id a),
          pr_client_name = (case v of None \<Rightarrow> [] | Some v \<Rightarrow> client_name_of d (vc_client_id v)),
          pr_vacancy_title = (case v of None \<Rightarrow> [] | Some v \<Rightarrow> vc_title v),
          pr_vacancy_fee = (case v of None \<Rightarrow> 0 | Some v \<Rightarrow> vc_fee_amount v),
          pr_recruiter_name = recruiter_name_of d (ap_recruiter_id a),
          pr_recruiter_id = ap_recruiter_id a,
          pr_date_contacted = Some (ap_date_contacted a),
          pr_status = ap_status a,
          pr_rejection_date = ap_rejection_date a,
          pr_start_date = ap_start_date a,
          pr_paid = (pays \<noteq> []),
          pr_paid_date = max_date (map pm_paid_date pays),
          pr_payment_amount = sum_list (map pm_amount pays),
          pr_is_replacement = ap_is_replacement a,
          pr_replacement_of_id = ap_replacement_of_id a,
          pr_replacement_note = ap_replacement_note a\<rparr>)"

text \<open>
  Modelled from the spec: the free-text search of section 4.1, a case-insensitive
  substring match against the four names. Case is folded for the letters A to Z only.
\<close>

definition lower_char :: "char \<Rightarrow> char" where
  "lower_char c =
     (case map_of (zip ''ABCDEFGHIJKLMNOPQRSTUVWXYZ'' ''abcdefghijklmnopqrstuvwxyz'') c of
        None \<Rightarrow> c | Some l \<Rightarrow> l)"

fun starts_with :: "string \<Rightarrow> string \<Rightarrow> bool" where
  "starts_with [] ys = True"
| "starts_with (x # xs) [] = False"
| "starts_with (x # xs) (y # ys) = (x = y \<and> starts_with xs ys)"

fun contains :: "string \<Rightarrow> string \<Rightarrow> bool" where
  "contains needle [] = (needle = [])"
| "contains needle (y # ys) = (starts_with needle (y # ys) \<or> contains needle ys)"

definition search_matches :: "string \<Rightarrow> pipeline_row \<Rightarrow> bool" where
  "search_matches s row =
     (let needle = map lower_char s
      in contains needle (map lower_char (pr_candidate_name row))
         \<or> contains needle (map lower_char (pr_vacancy_title row))
         \<or> contains needle (map lower_char (pr_client_name row))
         \<or> contains needle (map lower_char (pr_recruiter_name row)))"

text \<open>
  Modelled from the spec: role scoping (sections 3 and 4.1). For a caller who is not an
  admin the recruiter is forced to the caller's own recruiter id, whatever was requested;
  an admin is restricted only when a recruiter is requested. \<open>None\<close> is no restriction.
\<close>

definition scoped_recruiter :: "user \<Rightarrow> nat option \<Rightarrow> nat option option" where
  "scoped_recruiter caller requested =
     (case us_role caller of
        Admin \<Rightarrow> (case requested of None \<Rightarrow> None | Some r \<Rightarrow> Some (Some r))
      | User \<Rightarrow> Some (us_recruiter_id caller))"

definition in_scope :: "nat option option \<Rightarrow> nat \<Rightarrow> bool" where
  "in_scope sc r = (case sc of None \<Rightarrow> True | Some x \<Rightarrow> x = Some r)"

text \<open>
  Modelled from the spec: the other filters of section 4.1, exact matches on the client
  (through the vacancy) and on the status, and the search; all combined by conjunction.
\<close>

definition filter_matches :: "db \<Rightarrow> filters \<Rightarrow> application \<Rightarrow> bool" where
  "filter_matches d f a =
     ((case f_client_id f of None \<Rightarrow> True
        | Some c \<Rightarrow> (case vacancy_of d (ap_vacancy_id a) of None \<Rightarrow> False | Some v \<Rightarrow> vc_client_id v = c))
      \<and> (case f_status f of None \<Rightarrow> True | Some s \<Rightarrow> ap_status a = s)
      \<and> (case f_search f of None \<Rightarrow> True | Some s \<Rightarrow> search_matches s (pipeline_row_of d a)))"

text \<open>
  Modelled from the spec: \<^verbatim>\<open>list_pipeline(filters, caller)\<close> of sections 4.1 and 6 (the
  handler behind \<^verbatim>\<open>GET /pipeline\<close> is missing): scoping first, then the filters, the
  most recently created application first and ties by id descending.
\<close>

definition list_pipeline :: "db \<Rightarrow> filters \<Rightarrow> user \<Rightarrow> pipeline_row list" where
  "list_pipeline d f caller =
     (let sc = scoped_recruiter caller (f_recruiter_id f);
          hits = filter (\<lambda>a. in_scope sc (ap_recruiter_id a) \<and> filter_matches d f a) (applications d)
      in map (pipeline_row_of d) (rev (sort_key ap_created_at (sort_key ap_id hits))))"

definition no_filters :: filters where
  "no_filters = \<lparr>f_client_id = None, f_recruiter_id = None, f_status = None, f_search = None\<rparr>"

text \<open>
  Modelled from the spec: the earnings report of section 4.3 (the handler behind
  \<^verbatim>\<open>GET /reports/earnings\<close> is missing). The window runs from the first to the last day
  of the month, both included; the last day follows the Gregorian calendar.
\<close>

definition days_in_month :: "nat \<Rightarrow> nat \<Rightarrow> nat" where
  "days_in_month y m =
     (if m = 2 then (if y mod 4 = 0 \<and> (y mod 100 \<noteq> 0 \<or> y mod 400 = 0) then 29 else 28)
      else if m = 4 \<or> m = 6 \<or> m = 9 \<or> m = 11 then 30 else 31)"

definition in_month :: "nat \<Rightarrow> nat \<Rightarrow> date \<Rightarrow> bool" where
  "in_month year month dt = ((year, month, 1) \<le> dt \<and> dt \<le> (year, month, days_in_month year month))"

record earnings_report =
  er_total :: real
  er_items :: "report_item list"

text \<open>
  Modelled from the spec: one report line per selected payment, joined back to the
  names of its application (section 4.3, step 2).
\<close>

definition report_line :: "db \<Rightarrow> payment \<Rightarrow> report_item" where
  "report_line d p =
     (let row = (case application_of d (pm_application_id p) of
                   None \<Rightarrow> None | Some a \<Rightarrow> Some (pipeline_row_of d a))
      in \<lparr>it_paid_date = pm_paid_date p,
          it_amount = pm_amount p,
          it_candidate_name = (case row of None \<Rightarrow> [] | Some r \<Rightarrow> pr_candidate_name r),
          it_client_name = (case row of None \<Rightarrow> [] | Some r \<Rightarrow> pr_client_name r),
          it_vacancy_title = (case row of None \<Rightarrow> [] | Some r \<Rightarrow> pr_vacancy_title r),
          it_recruiter_name = (case row of None \<Rightarrow> [] | Some r \<Rightarrow> pr_recruiter_name r),
          it_application_id = pm_application_id p,
          it_payment_id = pm_id p\<rparr>)"

text \<open>
  Modelled from the spec: the selection of section 4.3, step 1, with the optional
  recruiter and the role scoping of the caller.
\<close>

definition payment_in_scope :: "db \<Rightarrow> nat option option \<Rightarrow> payment \<Rightarrow> bool" where
  "payment_in_scope d sc p =
     (case sc of None \<Rightarrow> True
      | Some x \<Rightarrow> (case application_of d (pm_application_id p) of
                    None \<Rightarrow> False | Some a \<Rightarrow> x = Some (ap_recruiter_id a)))"

definition selected_payments :: "db \<Rightarrow> nat \<Rightarrow> nat \<Rightarrow> nat option \<Rightarrow> user \<Rightarrow> payment list" where
  "selected_payments d year month recruiter caller =
     filter (\<lambda>p. in_month year month (pm_paid_date p)
                 \<and> payment_in_scope d (scoped_recruiter caller recruiter) p) (payments d)"

text \<open>
  Modelled from the spec: \<^verbatim>\<open>get_earnings(year, month, caller)\<close>: an invalid month is a
  validation error; otherwise the total is the sum of the selected amounts and the lines
  are ordered by \<^verbatim>\<open>paid_date\<close>, ties by payment id.
\<close>

definition get_earnings :: "db \<Rightarrow> nat \<Rightarrow> nat \<Rightarrow> nat option \<Rightarrow> user \<Rightarrow> error + earnings_report" where
  "get_earnings d year month recruiter caller =
     (if month < 1 \<or> 12 < month then Inl ValidationError
      else let sel = selected_payments d year month recruiter caller
           in Inr \<lparr>er_total = sum_list (map pm_amount sel),
                   er_items = map (report_line d) (sort_key pm_paid_date (sort_key pm_id sel))\<rparr>)"

subsection \<open>Requests that change the store\<close>

text \<open>
  The bodies of the POST and PATCH requests, as \<^verbatim>\<open>App\<close> builds them:
  \<^verbatim>\<open>api.createCandidate({full_name, phone, email, notes})\<close>,
  \<^verbatim>\<open>api.createApplication({candidate_id, vacancy_id, recruiter_id, date_contacted, status,
  rejection_date, start_date, paid, paid_date, payment_amount, is_replacement,
  replacement_of_id, replacement_note})\<close>,
  \<^verbatim>\<open>api.updateApplication(id, {status, date_contacted, rejection_date, start_date,
  is_replacement, replacement_of_id, replacement_note})\<close> and
  \<^verbatim>\<open>api.addPayment(appId, {paid_date, amount, note})\<close>. A date field carries the text of a
  date input, which is a date or empty.
\<close>

record candidate_payload =
  cp_full_name :: string
  cp_phone :: "string option"
  cp_email :: "string option"
  cp_notes :: "string option"

record application_payload =
  xp_candidate_id :: nat
  xp_vacancy_id :: nat
  xp_recruiter_id :: nat
  xp_date_contacted :: "date option"
  xp_status :: status
  xp_rejection_date :: "date option"
  xp_start_date :: "date option"
  xp_paid :: bool
  xp_paid_date :: "date option"
  xp_payment_amount :: real
  xp_is_replacement :: bool
  xp_replacement_of_id :: "nat option"
  xp_replacement_note :: "string option"

record update_payload =
  up_status :: status
  up_date_contacted :: "date option"
  up_rejection_date :: "date option"
  up_start_date :: "date option"
  up_is_replacement :: bool
  up_replacement_of_id :: "nat option"
  up_replacement_note :: "string option"

record payment_payload =
  pp_paid_date :: "date option"
  pp_amount :: real
  pp_note :: "string option"

text \<open>
  Modelled from the spec: creating a candidate (the handler behind
  \<^verbatim>\<open>POST /candidates\<close> is missing): the row is inserted under the next id and
  returned.
\<close>

definition new_candidate :: "db \<Rightarrow> candidate_payload \<Rightarrow> candidate" where
  "new_candidate d p =
     \<lparr>cd_id = next_id d, cd_full_name = cp_full_name p, cd_phone = cp_phone p,
      cd_email = cp_email p, cd_notes = cp_notes p\<rparr>"

definition insert_candidate :: "db \<Rightarrow> candidate \<Rightarrow> db" where
  "insert_candidate d c = d\<lparr>candidates := candidates d @ [c], next_id := next_id d + 1\<rparr>"

definition backend_createCandidate :: "candidate_payload \<Rightarrow> db \<Rightarrow> string + (candidate \<times> db)" where
  "backend_createCandidate p d =
     (let c = new_candidate d p in Inr (c, insert_candidate d c))"

text \<open>
  Modelled from the spec: creating an application (the handler behind
  \<^verbatim>\<open>POST /applications\<close> is missing). The row is inserted when the constraints of
  \<^verbatim>\<open>schema.sql\<close> hold: \<^verbatim>\<open>date_contacted\<close> is NOT NULL, and the candidate, the
  vacancy, the recruiter and the replaced application, when given, must exist (the
  REFERENCES clauses). An error reaches the caller as a description string.
\<close>

definition references_ok :: "db \<Rightarrow> nat \<Rightarrow> nat \<Rightarrow> nat \<Rightarrow> nat option \<Rightarrow> bool" where
  "references_ok d cand vac recr repl =
     (find (\<lambda>c. cd_id c = cand) (candidates d) \<noteq> None
      \<and> vacancy_of d vac \<noteq> None
      \<and> find (\<lambda>r. rc_id r = recr) (recruiters d) \<noteq> None
      \<and> (case repl of None \<Rightarrow> True | Some i \<Rightarrow> application_of d i \<noteq> None))"

definition new_application :: "db \<Rightarrow> application_payload \<Rightarrow> date \<Rightarrow> application" where
  "new_application d p contacted =
     \<lparr>ap_id = next_id d, ap_candidate_id = xp_candidate_id p,
      ap_vacancy_id = xp_vacancy_id p, ap_recruiter_id = xp_recruiter_id p,
      ap_date_contacted = contacted, ap_status = xp_status p,
      ap_rejection_date = xp_rejection_date p, ap_start_date = xp_start_date p,
      ap_paid = xp_paid p, ap_paid_date = xp_paid_date p,
      ap_payment_amount = xp_payment_amount p,
      ap_is_replacement = xp_is_replacement p,
      ap_replacement_of_id = xp_replacement_of_id p,
      ap_replacement_note = xp_replacement_note p, ap_created_at = now d\<rparr>"

definition insert_application :: "db \<Rightarrow> application \<Rightarrow> db" where
  "insert_application d a =
     d\<lparr>applications := applications d @ [a], next_id := next_id d + 1, now := now d + 1\<rparr>"

definition backend_createApplication :: "application_payload \<Rightarrow> db \<Rightarrow> string + db" where
  "backend_createApplication p d =
     (case xp_date_contacted p of
        None \<Rightarrow> Inl ''ValidationError''
      | Some contacted \<Rightarrow>
          if \<not> references_ok d (xp_candidate_id p) (xp_vacancy_id p) (xp_recruiter_id p)
                 (xp_replacement_of_id p)
          then Inl ''ReferentialIntegrityError''
          else Inr (insert_application d (new_application d p contacted)))"

text \<open>
  Modelled from the spec: updating an application (the handler behind
  \<^verbatim>\<open>PATCH /applications/{id}\<close> is missing): the application must exist, and the same
  constraints hold for the new values.
\<close>

definition apply_update :: "update_payload \<Rightarrow> date \<Rightarrow> application \<Rightarrow> application" where
  "apply_update p contacted a =
     a\<lparr>ap_status := up_status p, ap_date_contacted := contacted,
       ap_rejection_date := up_rejection_date p, ap_start_date := up_start_date p,
       ap_is_replacement := up_is_replacement p,
       ap_replacement_of_id := up_replacement_of_id p,
       ap_replacement_note := up_replacement_note p\<rparr>"

definition backend_updateApplication :: "nat \<Rightarrow> update_payload \<Rightarrow> db \<Rightarrow> string + db" where
  "backend_updateApplication i p d =
     (case application_of d i of
        None \<Rightarrow> Inl ''NotFoundError''
      | Some _ \<Rightarrow>
         (case up_date_contacted p of
            None \<Rightarrow> Inl ''ValidationError''
          | Some contacted \<Rightarrow>
             if (case up_replacement_of_id p of None \<Rightarrow> False | Some r \<Rightarrow> application_of d r = None)
             then Inl ''ReferentialIntegrityError''
             else Inr (d\<lparr>applications :=
                    map (\<lambda>a. if ap_id a = i then apply_update p contacted a else a) (applications d)\<rparr>)))"

text \<open>
  Modelled from the spec: \<^verbatim>\<open>add_payment\<close> of sections 4.2 and 6 (the handler behind
  \<^verbatim>\<open>POST /applications/{id}/payments\<close> is missing): it needs a \<^verbatim>\<open>paid_date\<close> and an
  amount above zero and fails validation otherwise; the application must exist; the
  payment is appended and the legacy columns of the application stay as they are.
\<close>

definition new_payment :: "db \<Rightarrow> nat \<Rightarrow> date \<Rightarrow> payment_payload \<Rightarrow> payment" where
  "new_payment d i paid p =
     \<lparr>pm_id = next_id d, pm_application_id = i, pm_paid_date = paid,
      pm_amount = pp_amount p, pm_note = pp_note p, pm_created_at = now d\<rparr>"

definition insert_payment :: "db \<Rightarrow> payment \<Rightarrow> db" where
  "insert_payment d p =
     d\<lparr>payments := payments d @ [p], next_id := next_id d + 1, now := now d + 1\<rparr>"

definition backend_addPayment :: "nat \<Rightarrow> payment_payload \<Rightarrow> db \<Rightarrow> string + db" where
  "backend_addPayment i p d =
     (case pp_paid_date p of
        None \<Rightarrow> Inl ''ValidationError''
      | Some paid \<Rightarrow>
          if pp_amount p \<le> 0 then Inl ''ValidationError''
          else if application_of d i = None then Inl ''NotFoundError''
          else Inr (insert_payment d (new_payment d i paid p)))"

section \<open>The front end\<close>

text \<open>
  The messages \<^verbatim>\<open>setErr\<close> is called with. The literal messages of the source are
  Russian sentences; they are named here by what they ask for:
  \<^item> \<open>NeedCandidateName\<close>: enter the candidate's name;
  \<^item> \<open>NeedVacancy\<close>: choose a vacancy;
  \<^item> \<open>NeedRecruiter\<close>: choose a recruiter;
  \<^item> \<open>NeedRejectionDate\<close>: rejected needs a rejection date;
  \<^item> \<open>NeedStartDate\<close>: hired needs a start date;
  \<^item> \<open>NeedPaidDate\<close>: if paid, give the payment date;
  \<^item> \<open>NeedPaymentDate\<close>: give the payment date;
  \<^item> \<open>NeedPositiveAmount\<close>: the payment amount must be above zero;
  \<^item> \<open>ApiError\<close>: the text of a failed request, \<^verbatim>\<open>String(e?.message || e)\<close>.
\<close>

datatype err_msg =
    NeedCandidateName
  | NeedVacancy
  | NeedRecruiter
  | NeedRejectionDate
  | NeedStartDate
  | NeedPaidDate
  | NeedPaymentDate
  | NeedPositiveAmount
  | ApiError string

text \<open>
  The state of the add form (\<^verbatim>\<open>addForm\<close>) and of the payment form (\<^verbatim>\<open>payForm\<close>). An id
  field holds a number or the empty string, a date field the text of a date input: both
  are options, \<open>None\<close> for the empty string.
\<close>

record add_form =
  af_full_name :: string
  af_phone :: string
  af_email :: string
  af_notes :: string
  af_client_id :: "nat option"
  af_vacancy_id :: "nat option"
  af_recruiter_id :: "nat option"
  af_date_contacted :: "date option"
  af_status :: status
  af_rejection_date :: "date option"
  af_start_date :: "date option"
  af_paid :: bool
  af_paid_date :: "date option"
  af_payment_amount :: real
  af_is_replacement :: bool
  af_replacement_of_id :: "nat option"
  af_replacement_note :: string

record pay_form =
  pf_paid_date :: "date option"
  pf_amount :: real
  pf_note :: string

text \<open>
  The functions of \<^verbatim>\<open>api.js\<close> that the handlers call. Each sends one request for the
  signed-in user; the request either fails with a text (\<^verbatim>\<open>http\<close> throws) or returns its
  result, and a request that changes data returns the store after it. The handlers are
  written against this interface, so that what is proved of them holds for any server.
\<close>

record api =
  api_createCandidate :: "candidate_payload \<Rightarrow> db \<Rightarrow> string + (candidate \<times> db)"
  api_createApplication :: "application_payload \<Rightarrow> db \<Rightarrow> string + db"
  api_updateApplication :: "nat \<Rightarrow> update_payload \<Rightarrow> db \<Rightarrow> string + db"
  api_payments :: "nat \<Rightarrow> db \<Rightarrow> string + payment list"
  api_addPayment :: "nat \<Rightarrow> payment_payload \<Rightarrow> db \<Rightarrow> string + db"
  api_pipeline :: "filters \<Rightarrow> db \<Rightarrow> string + pipeline_row list"

text \<open>
The part of the component state (\<^verbatim>\<open>useState\<close>) that the handlers read and write.
\<close>

record ui =
  err :: "err_msg option"
  loading :: bool
  openAddApp :: bool
  addForm :: add_form
  pipeline :: "pipeline_row list"
  filters :: filters
  openEditApp :: "pipeline_row option"
  ui_payments :: "payment list"
  payForm :: pay_form
  authUser :: "user option"

text \<open>
  JavaScript truthiness of an id field (\<^verbatim>\<open>""\<close> and \<^verbatim>\<open>0\<close> are falsy), \<^verbatim>\<open>Number(x)\<close> of
  an id field (\<^verbatim>\<open>Number("")\<close> is \<^verbatim>\<open>0\<close>), \<^verbatim>\<open>s || null\<close> for a string, and
  \<^verbatim>\<open>String.prototype.trim\<close> for ASCII white space.
\<close>

definition truthy_id :: "nat option \<Rightarrow> bool" where
  "truthy_id v = (case v of None \<Rightarrow> False | Some n \<Rightarrow> n \<noteq> 0)"

definition id_number :: "nat option \<Rightarrow> nat" where
  "id_number v = (case v of None \<Rightarrow> 0 | Some n \<Rightarrow> n)"

definition or_null :: "string \<Rightarrow> string option" where
  "or_null s = (if s = [] then None else Some s)"

definition is_space :: "char \<Rightarrow> bool" where
  "is_space c = (c \<in> set [CHR '' '', CHR 0x09, CHR 0x0A, CHR 0x0B, CHR 0x0C, CHR 0x0D])"

definition trim :: "string \<Rightarrow> string" where
  "trim s = rev (dropWhile is_space (rev (dropWhile is_space s)))"

text \<open>
  \<^verbatim>\<open>api.pipeline\<close> (api.js) puts a filter into the query string only when it is truthy:
  \<^verbatim>\<open>
  if (params.client_id) sp.set("client_id", String(params.client_id));
  if (params.recruiter_id) sp.set("recruiter_id", String(params.recruiter_id));
  if (params.status) sp.set("status", params.status);
  if (params.search) sp.set("search", params.search);
  \<close>
\<close>

definition pipeline_params :: "filters \<Rightarrow> filters" where
  "pipeline_params params =
     \<lparr>f_client_id = (case f_client_id params of None \<Rightarrow> None | Some c \<Rightarrow> if c = 0 then None else Some c),
      f_recruiter_id = (case f_recruiter_id params of None \<Rightarrow> None | Some r \<Rightarrow> if r = 0 then None else Some r),
      f_status = f_status params,
      f_search = (case f_search params of None \<Rightarrow> None | Some s \<Rightarrow> if s = [] then None else Some s)\<rparr>"

text \<open>
  \<^verbatim>\<open>
  async function refreshPipeline() {
      setErr(null);
      try { const rows = await api.pipeline(filters); setPipeline(rows); }
      catch (e) { setErr(String(e?.message || e)); }
  }
  \<close>
\<close>

definition refreshPipeline :: "api \<Rightarrow> ui \<Rightarrow> db \<Rightarrow> ui" where
  "refreshPipeline api u d =
     (let u = u\<lparr>err := None\<rparr>
      in case api_pipeline api (filters u) d of
           Inl e \<Rightarrow> u\<lparr>err := Some (ApiError e)\<rparr>
         | Inr rows \<Rightarrow> u\<lparr>pipeline := rows\<rparr>)"

text \<open>
  The effect that locks the recruiter of the add form for an account that is not an
  admin:
  \<^verbatim>\<open>
  if (authUser && authUser.role !== "admin") {
      setAddForm((f) => ({ ...f, recruiter_id: authUser.recruiter_id || "" }));
  }
  \<close>
\<close>

definition lockRecruiter :: "ui \<Rightarrow> ui" where
  "lockRecruiter u =
     (case authUser u of
        None \<Rightarrow> u
      | Some a \<Rightarrow>
          if us_role a \<noteq> Admin
          then u\<lparr>addForm := (addForm u)\<lparr>af_recruiter_id :=
                  (if truthy_id (us_recruiter_id a) then us_recruiter_id a else None)\<rparr>\<rparr>
          else u)"

text \<open>
The two request bodies \<^verbatim>\<open>submitAddApplication\<close> builds from the form.
\<close>

definition candidate_payload_of :: "add_form \<Rightarrow> candidate_payload" where
  "candidate_payload_of f =
     \<lparr>cp_full_name = trim (af_full_name f),
      cp_phone = or_null (af_phone f),
      cp_email = or_null (af_email f),
      cp_notes = or_null (af_notes f)\<rparr>"

definition application_payload_of :: "add_form \<Rightarrow> nat \<Rightarrow> application_payload" where
  "application_payload_of f candidate_id =
     \<lparr>xp_candidate_id = candidate_id,
      xp_vacancy_id = id_number (af_vacancy_id f),
      xp_recruiter_id = id_number (af_recruiter_id f),
      xp_date_contacted = af_date_contacted f,
      xp_status = af_status f,
      xp_rejection_date = af_rejection_date f,
      xp_start_date = af_start_date f,
      xp_paid = af_paid f,
      xp_paid_date = af_paid_date f,
      xp_payment_amount = af_payment_amount f,
      xp_is_replacement = af_is_replacement f,
      xp_replacement_of_id = (if truthy_id (af_replacement_of_id f) then af_replacement_of_id f else None),
      xp_replacement_note = or_null (af_replacement_note f)\<rparr>"

text \<open>
The form \<^verbatim>\<open>setAddForm\<close> is reset to after a successful submit.
\<close>

definition blank_add_form :: "date \<Rightarrow> user option \<Rightarrow> add_form" where
  "blank_add_form today au =
     \<lparr>af_full_name = [], af_phone = [], af_email = [], af_notes = [],
      af_client_id = None, af_vacancy_id = None,
      af_recruiter_id =
        (case au of None \<Rightarrow> None
         | Some a \<Rightarrow> if us_role a \<noteq> Admin \<and> truthy_id (us_recruiter_id a)
                     then us_recruiter_id a else None),
      af_date_contacted = Some today, af_status = New, af_rejection_date = None,
      af_start_date = None, af_paid = False, af_paid_date = None, af_payment_amount = 0,
      af_is_replacement = False, af_replacement_of_id = None, af_replacement_note = []\<rparr>"

text \<open>
  The checks at the head of \<^verbatim>\<open>submitAddApplication\<close>, in the order of the source; each
  is a \<^verbatim>\<open>return setErr(...)\<close>:
  \<^verbatim>\<open>
  if (!addForm.full_name.trim()) ...
  if (!addForm.vacancy_id) ...
  if (!addForm.recruiter_id) ...
  if (addForm.status === "rejected" && !addForm.rejection_date) ...
  if (addForm.status === "hired" && !addForm.start_date) ...
  if (addForm.paid && !addForm.paid_date) ...
  \<close>
\<close>

definition addFormError :: "add_form \<Rightarrow> err_msg option" where
  "addFormError f =
     (if trim (af_full_name f) = [] then Some NeedCandidateName
      else if \<not> truthy_id (af_vacancy_id f) then Some NeedVacancy
      else if \<not> truthy_id (af_recruiter_id f) then Some NeedRecruiter
      else if af_status f = Rejected \<and> af_rejection_date f = None then Some NeedRejectionDate
      else if af_status f = Hired \<and> af_start_date f = None then Some NeedStartDate
      else if af_paid f \<and> af_paid_date f = None then Some NeedPaidDate
      else None)"

text \<open>
  \<^verbatim>\<open>submitAddApplication\<close>: \<^verbatim>\<open>setErr(null)\<close>, the checks, \<^verbatim>\<open>setLoading(true)\<close>, then
  inside \<^verbatim>\<open>try\<close> the two requests one after the other, the reset of the form and
  \<^verbatim>\<open>refreshPipeline\<close>; \<^verbatim>\<open>catch\<close> stores the message and \<^verbatim>\<open>finally\<close> clears
  \<^verbatim>\<open>loading\<close>. The state is the pair of the component state and the store.
\<close>

definition submitAddApplication :: "api \<Rightarrow> date \<Rightarrow> ui \<times> db \<Rightarrow> ui \<times> db" where
  "submitAddApplication api today s =
     (let d = snd s; u = (fst s)\<lparr>err := None\<rparr>; f = addForm u
      in case addFormError f of
           Some e \<Rightarrow> (u\<lparr>err := Some e\<rparr>, d)
         | None \<Rightarrow>
            (let u = u\<lparr>loading := True\<rparr>
             in case api_createCandidate api (candidate_payload_of f) d of
                  Inl e \<Rightarrow> (u\<lparr>err := Some (ApiError e), loading := False\<rparr>, d)
                | Inr (candidate, d1) \<Rightarrow>
                   (case api_createApplication api (application_payload_of f (cd_id candidate)) d1 of
                      Inl e \<Rightarrow> (u\<lparr>err := Some (ApiError e), loading := False\<rparr>, d1)
                    | Inr d2 \<Rightarrow>
                       (let u = u\<lparr>openAddApp := False, addForm := blank_add_form today (authUser u)\<rparr>;
                            u = refreshPipeline api u d2
                        in (u\<lparr>loading := False\<rparr>, d2)))))"



text \<open>
  \<^verbatim>\<open>
  async function addPaymentToCurrent() {
      if (!openEditApp) return;
      if (!payForm.paid_date) return setErr(...);
      if (!payForm.amount || payForm.amount <= 0) return setErr(...);
      setLoading(true);
      try {
          await api.addPayment(openEditApp.id, { paid_date: payForm.paid_date,
              amount: payForm.amount, note: payForm.note || null });
          const list = await api.payments(openEditApp.id);
          setPayments(list);
          await refreshPipeline();
          const fresh = (await api.pipeline({})).find((x) => x.id === openEditApp.id) || openEditApp;
          setOpenEditApp(fresh);
          setPayForm({ paid_date: today, amount: 0, note: "" });
      }
      catch (e) { setErr(String(e?.message || e)); }
      finally { setLoading(false); }
  }
  \<close>
\<close>

definition payment_payload_of :: "pay_form \<Rightarrow> payment_payload" where
  "payment_payload_of pf =
     \<lparr>pp_paid_date = pf_paid_date pf, pp_amount = pf_amount pf, pp_note = or_null (pf_note pf)\<rparr>"

definition addPaymentToCurrent :: "api \<Rightarrow> date \<Rightarrow> ui \<times> db \<Rightarrow> ui \<times> db" where
  "addPaymentToCurrent api today s =
     (let d = snd s; u = fst s
      in case openEditApp u of
           None \<Rightarrow> (u, d)
         | Some app \<Rightarrow>
            if pf_paid_date (payForm u) = None then (u\<lparr>err := Some NeedPaymentDate\<rparr>, d)
            else if pf_amount (payForm u) = 0 \<or> pf_amount (payForm u) \<le> 0
            then (u\<lparr>err := Some NeedPositiveAmount\<rparr>, d)
            else
              (let u = u\<lparr>loading := True\<rparr>
               in case api_addPayment api (pr_id app) (payment_payload_of (payForm u)) d of
                    Inl e \<Rightarrow> (u\<lparr>err := Some (ApiError e), loading := False\<rparr>, d)
                  | Inr d1 \<Rightarrow>
                     (case api_payments api (pr_id app) d1 of
                        Inl e \<Rightarrow> (u\<lparr>err := Some (ApiError e), loading := False\<rparr>, d1)
                      | Inr list \<Rightarrow>
                         (let u = u\<lparr>ui_payments := list\<rparr>;
                              u = refreshPipeline api u d1
                          in case api_pipeline api no_filters d1 of
                               Inl e \<Rightarrow> (u\<lparr>err := Some (ApiError e), loading := False\<rparr>, d1)
                             | Inr rows \<Rightarrow>
                                (let fresh = (case find (\<lambda>x. pr_id x = pr_id app) rows of
                                                None \<Rightarrow> app | Some x \<Rightarrow> x)
                                 in (u\<lparr>openEditApp := Some fresh,
                                       payForm := \<lparr>pf_paid_date = Some today, pf_amount = 0, pf_note = []\<rparr>,
                                       loading := False\<rparr>, d1))))))"

text \<open>
  Modelled from the spec: the server the front end talks to, for a signed-in caller (the
  handlers are missing): the endpoints of the previous section behind the functions of
  \<^verbatim>\<open>api.js\<close>.
\<close>

definition backend :: "user \<Rightarrow> api" where
  "backend caller =
     \<lparr>api_createCandidate = backend_createCandidate,
      api_createApplication = backend_createApplication,
      api_updateApplication = backend_updateApplication,
      api_payments = (\<lambda>i d. Inr (list_payments d i)),
      api_addPayment = backend_addPayment,
      api_pipeline = (\<lambda>params d. Inr (list_pipeline d (pipeline_params params) caller))\<rparr>"


section \<open>Sample data\<close>

text \<open>
  A small store: one client, two recruiters, two candidates, one vacancy, two
  applications (one per recruiter) and three payments dated 2024-03-05, 2024-03-31 and
  2024-04-01 of 100, 50 and 999; an admin and a user bound to recruiter 1.
\<close>

definition demo_db :: db where
  "demo_db =
     \<lparr>clients = [\<lparr>cl_id = 1, cl_name = ''Acme''\<rparr>],
      recruiters = [\<lparr>rc_id = 1, rc_name = ''Bob''\<rparr>, \<lparr>rc_id = 2, rc_name = ''Eve''\<rparr>],
      candidates = [\<lparr>cd_id = 1, cd_full_name = ''Ann'', cd_phone = None, cd_email = None, cd_notes = None\<rparr>,
                    \<lparr>cd_id = 2, cd_full_name = ''Dan'', cd_phone = None, cd_email = None, cd_notes = None\<rparr>],
      vacancies = [\<lparr>vc_id = 1, vc_client_id = 1, vc_title = ''Driver'', vc_fee_amount = 1000, vc_city = None\<rparr>],
      applications =
        [\<lparr>ap_id = 1, ap_candidate_id = 1, ap_vacancy_id = 1, ap_recruiter_id = 1,
          ap_date_contacted = (2024, 2, 1), ap_status = Hired, ap_rejection_date = None,
          ap_start_date = Some (2024, 3, 1), ap_paid = False, ap_paid_date = None,
          ap_payment_amount = 0, ap_is_replacement = False, ap_replacement_of_id = None,
          ap_replacement_note = None, ap_created_at = 10\<rparr>,
         \<lparr>ap_id = 2, ap_candidate_id = 2, ap_vacancy_id = 1, ap_recruiter_id = 2,
          ap_date_contacted = (2024, 2, 2), ap_status = New, ap_rejection_date = None,
          ap_start_date = None, ap_paid = False, ap_paid_date = None,
          ap_payment_amount = 0, ap_is_replacement = False, ap_replacement_of_id = None,
          ap_replacement_note = None, ap_created_at = 11\<rparr>],
      payments =
        [\<lparr>pm_id = 1, pm_application_id = 1, pm_paid_date = (2024, 3, 5), pm_amount = 100,
          pm_note = None, pm_created_at = 20\<rparr>,
         \<lparr>pm_id = 2, pm_application_id = 1, pm_paid_date = (2024, 3, 31), pm_amount = 50,
          pm_note = None, pm_created_at = 21\<rparr>,
         \<lparr>pm_id = 3, pm_application_id = 2, pm_paid_date = (2024, 4, 1), pm_amount = 999,
          pm_note = None, pm_created_at = 22\<rparr>],
      next_id = 4, now = 30\<rparr>"

definition demo_admin :: user where
  "demo_admin = \<lparr>us_id = 1, us_username = ''root'', us_role = Admin, us_recruiter_id = None\<rparr>"

definition demo_user :: user where
  "demo_user = \<lparr>us_id = 2, us_username = ''bob'', us_role = User, us_recruiter_id = Some 1\<rparr>"

text \<open>
  An add form that passes every check, with status \<open>new\<close> and a rejection date left in its
  field; the component state around it; the same with the contact date cleared; the state
  while application 2 is edited, with an amount in the payment form; and the add form
  with status \<open>rejected\<close> and a given rejection date.
\<close>

definition demo_form :: add_form where
  "demo_form =
     \<lparr>af_full_name = ''Zoe'', af_phone = [], af_email = [], af_notes = [],
      af_client_id = Some 1, af_vacancy_id = Some 1, af_recruiter_id = Some 1,
      af_date_contacted = Some (2024, 5, 2), af_status = New,
      af_rejection_date = Some (2024, 1, 15), af_start_date = None, af_paid = False,
      af_paid_date = None, af_payment_amount = 0, af_is_replacement = False,
      af_replacement_of_id = None, af_replacement_note = []\<rparr>"

definition demo_ui :: ui where
  "demo_ui =
     \<lparr>err = None, loading = False, openAddApp = True, addForm = demo_form, pipeline = [],
      filters = no_filters, openEditApp = None, ui_payments = [],
      payForm = \<lparr>pf_paid_date = Some (2024, 5, 2), pf_amount = 0, pf_note = []\<rparr>,
      authUser = Some demo_admin\<rparr>"

definition cleared_date_ui :: ui where
  "cleared_date_ui = demo_ui\<lparr>addForm := demo_form\<lparr>af_date_contacted := None\<rparr>\<rparr>"

definition edit_ui :: "real \<Rightarrow> ui" where
  "edit_ui amount =
     demo_ui\<lparr>openEditApp := Some (sample_row 2),
             payForm := \<lparr>pf_paid_date = Some (2024, 5, 2), pf_amount = amount, pf_note = ''part''\<rparr>\<rparr>"


definition zoe :: candidate where
  "zoe = \<lparr>cd_id = 4, cd_full_name = ''Zoe'', cd_phone = None, cd_email = None, cd_notes = None\<rparr>"

section \<open>The pipeline query and role scoping\<close>

lemma filter_matches_recruiter_update:
  "filter_matches d (f\<lparr>f_recruiter_id := x\<rparr>) a = filter_matches d f a"
  by (simp add: filter_matches_def)

lemma pipeline_params_recruiter_update:
  "\<exists>y. pipeline_params (params\<lparr>f_recruiter_id := x\<rparr>) = (pipeline_params params)\<lparr>f_recruiter_id := y\<rparr>"
  by (simp add: pipeline_params_def)

lemma list_pipeline_user:
  "us_role caller = User \<Longrightarrow>
   list_pipeline d f caller =
     map (pipeline_row_of d) (rev (sort_key ap_created_at (sort_key ap_id
       (filter (\<lambda>a. us_recruiter_id caller = Some (ap_recruiter_id a) \<and> filter_matches d f a) (applications d)))))"
  by (simp add: list_pipeline_def scoped_recruiter_def in_scope_def)

lemma list_pipeline_user_update:
  "us_role caller = User \<Longrightarrow> list_pipeline d (f\<lparr>f_recruiter_id := x\<rparr>) caller = list_pipeline d f caller"
  by (simp add: list_pipeline_user filter_matches_recruiter_update)

lemma filter_matches_no_filters: "filter_matches d no_filters a"
  by (simp add: filter_matches_def no_filters_def)

lemma pr_id_pipeline_row_of: "pr_id (pipeline_row_of d a) = ap_id a"
  by (simp add: pipeline_row_of_def Let_def)

lemma pr_recruiter_id_pipeline_row_of: "pr_recruiter_id (pipeline_row_of d a) = ap_recruiter_id a"
  by (simp add: pipeline_row_of_def Let_def)

lemma pipeline_scoping_core:
  assumes role: "us_role caller = User" and rid: "us_recruiter_id caller = Some rid"
  shows "list_pipeline d (f\<lparr>f_recruiter_id := x\<rparr>) caller = list_pipeline d f caller
     \<and> list_pipeline d (pipeline_params (f\<lparr>f_recruiter_id := x\<rparr>)) caller
         = list_pipeline d (pipeline_params f) caller
     \<and> set (list_pipeline d f caller)
         = pipeline_row_of d ` {a \<in> set (applications d). ap_recruiter_id a = rid \<and> filter_matches d f a}
     \<and> (\<forall>row \<in> set (list_pipeline d f caller). pr_recruiter_id row = rid)
     \<and> pr_id ` set (list_pipeline d no_filters caller)
         = ap_id ` {a \<in> set (applications d). ap_recruiter_id a = rid}"
proof (intro conjI)
  show "list_pipeline d (f\<lparr>f_recruiter_id := x\<rparr>) caller = list_pipeline d f caller"
    using role by (rule list_pipeline_user_update)
next
  obtain y where y: "pipeline_params (f\<lparr>f_recruiter_id := x\<rparr>) = (pipeline_params f)\<lparr>f_recruiter_id := y\<rparr>"
    using pipeline_params_recruiter_update by blast
  show "list_pipeline d (pipeline_params (f\<lparr>f_recruiter_id := x\<rparr>)) caller
         = list_pipeline d (pipeline_params f) caller"
    unfolding y using role by (rule list_pipeline_user_update)
next
  show rows: "set (list_pipeline d f caller)
         = pipeline_row_of d ` {a \<in> set (applications d). ap_recruiter_id a = rid \<and> filter_matches d f a}"
    using rid by (auto simp: list_pipeline_user [OF role])
  show "\<forall>row \<in> set (list_pipeline d f caller). pr_recruiter_id row = rid"
    unfolding rows by (auto simp: pr_recruiter_id_pipeline_row_of)
next
  have "set (list_pipeline d no_filters caller)
         = pipeline_row_of d ` {a \<in> set (applications d). ap_recruiter_id a = rid}"
    using rid by (auto simp: list_pipeline_user [OF role] filter_matches_no_filters)
  then show "pr_id ` set (list_pipeline d no_filters caller)
         = ap_id ` {a \<in> set (applications d). ap_recruiter_id a = rid}"
    by (simp add: image_image pr_id_pipeline_row_of)
qed

lemma backend_fields:
  "api_createCandidate (backend caller) = backend_createCandidate"
  "api_createApplication (backend caller) = backend_createApplication"
  "api_updateApplication (backend caller) = backend_updateApplication"
  "api_addPayment (backend caller) = backend_addPayment"
  "api_payments (backend caller) i d = Inr (list_payments d i)"
  "api_pipeline (backend caller) params d = Inr (list_pipeline d (pipeline_params params) caller)"
  by (simp_all add: backend_def)

lemma filters_lockRecruiter: "filters (lockRecruiter u) = filters u"
  by (simp add: lockRecruiter_def split: option.splits)

lemma pipeline_params_forwards:
  "f_recruiter_id (pipeline_params (f\<lparr>f_recruiter_id := Some r\<rparr>)) = (if r = 0 then None else Some r)"
  by (simp add: pipeline_params_def)

lemma demo_pipeline: "map pr_id (list_pipeline demo_db no_filters demo_user) = [1]"
  by (simp add: list_pipeline_def scoped_recruiter_def in_scope_def demo_db_def demo_user_def
      filter_matches_def no_filters_def pr_id_pipeline_row_of)

text \<open>
  Claim C2. For a caller who is not an admin and is bound to recruiter \<open>rid\<close>: replacing
  the \<^verbatim>\<open>recruiter_id\<close> filter by any value \<open>x\<close> leaves the result of \<^verbatim>\<open>list_pipeline\<close>
  unchanged, also through \<^verbatim>\<open>api.pipeline\<close>; the rows returned are exactly the rows of the
  applications whose recruiter is \<open>rid\<close> and that pass the other filters supplied, so
  every row belongs to recruiter \<open>rid\<close>, and without other filters the ids returned are
  exactly the ids of the applications of recruiter \<open>rid\<close>. The presentation layer does
  not do the scoping: the effect that locks the recruiter touches the add form only and
  leaves the pipeline filters alone, and \<^verbatim>\<open>api.pipeline\<close> forwards whatever recruiter id
  it is given.
\<close>

theorem pipeline_role_scoping:
  assumes role: "us_role caller = User" and rid: "us_recruiter_id caller = Some rid"
  shows "list_pipeline d (f\<lparr>f_recruiter_id := x\<rparr>) caller = list_pipeline d f caller
     \<and> api_pipeline (backend caller) (f\<lparr>f_recruiter_id := x\<rparr>) d = api_pipeline (backend caller) f d
     \<and> set (list_pipeline d f caller)
         = pipeline_row_of d ` {a \<in> set (applications d). ap_recruiter_id a = rid \<and> filter_matches d f a}
     \<and> (\<forall>row \<in> set (list_pipeline d f caller). pr_recruiter_id row = rid)
     \<and> pr_id ` set (list_pipeline d no_filters caller)
         = ap_id ` {a \<in> set (applications d). ap_recruiter_id a = rid}
     \<and> filters (lockRecruiter u) = filters u
     \<and> f_recruiter_id (pipeline_params (f\<lparr>f_recruiter_id := Some r\<rparr>)) = (if r = 0 then None else Some r)"
  using pipeline_scoping_core [OF role rid, where x = x and d = d and f = f]
  by (simp add: backend_fields filters_lockRecruiter pipeline_params_forwards)

text \<open>
  The user bound to recruiter 1 asks for recruiter 2: the request carries the value, the
  answer is the one for no filter, and it holds application 1 only.
\<close>

theorem pipeline_role_scoping_witness:
  "api_pipeline (backend demo_user) (no_filters\<lparr>f_recruiter_id := Some 2\<rparr>) demo_db
     = api_pipeline (backend demo_user) no_filters demo_db
   \<and> f_recruiter_id (pipeline_params (no_filters\<lparr>f_recruiter_id := Some 2\<rparr>)) = Some 2
   \<and> map pr_id (list_pipeline demo_db no_filters demo_user) = [1]
   \<and> pr_id ` set (list_pipeline demo_db no_filters demo_user) = {1}"
proof -
  have h1: "us_role demo_user = User" by (simp add: demo_user_def)
  have h2: "us_recruiter_id demo_user = Some 1" by (simp add: demo_user_def)
  note t = pipeline_role_scoping [OF h1 h2, where d = demo_db and f = no_filters and x = "Some 2"
      and u = demo_ui and r = 2]
  have a: "api_pipeline (backend demo_user) (no_filters\<lparr>f_recruiter_id := Some 2\<rparr>) demo_db
     = api_pipeline (backend demo_user) no_filters demo_db"
    using t by blast
  have b: "f_recruiter_id (pipeline_params (no_filters\<lparr>f_recruiter_id := Some 2\<rparr>)) = Some 2"
    using t by simp
  have "set (map pr_id (list_pipeline demo_db no_filters demo_user)) = {1}"
    by (simp only: demo_pipeline) simp
  then have c: "pr_id ` set (list_pipeline demo_db no_filters demo_user) = {1}" by simp
  from a b demo_pipeline c show ?thesis by simp
qed

section \<open>The earnings report\<close>

lemma sum_list_insort_key:
  fixes f :: "'a \<Rightarrow> real"
  shows "sum_list (map f (insort_key k x xs)) = f x + sum_list (map f xs)"
  by (induction xs) auto

lemma sum_list_sort_key:
  fixes f :: "'a \<Rightarrow> real"
  shows "sum_list (map f (sort_key k xs)) = sum_list (map f xs)"
  by (induction xs) (auto simp: sum_list_insort_key)

lemma in_month_iff:
  "in_month year month (y, m, dd)
     \<longleftrightarrow> y = year \<and> m = month \<and> 1 \<le> dd \<and> dd \<le> days_in_month year month"
  by (auto simp: in_month_def less_eq_prod_def)

lemma it_amount_report_line: "it_amount (report_line d p) = pm_amount p"
  by (simp add: report_line_def Let_def)

lemma it_payment_id_report_line: "it_payment_id (report_line d p) = pm_id p"
  by (simp add: report_line_def Let_def)

lemma demo_selected:
  "selected_payments demo_db 2024 3 None demo_admin = take 2 (payments demo_db)"
  by (simp add: selected_payments_def demo_db_def demo_admin_def in_month_def days_in_month_def
      payment_in_scope_def scoped_recruiter_def less_eq_prod_def)

lemma demo_earnings_value:
  "get_earnings demo_db 2024 3 None demo_admin =
     Inr \<lparr>er_total = 150,
          er_items = [\<lparr>it_paid_date = (2024, 3, 5), it_amount = 100, it_candidate_name = ''Ann'',
                        it_client_name = ''Acme'', it_vacancy_title = ''Driver'',
                        it_recruiter_name = ''Bob'', it_application_id = 1, it_payment_id = 1\<rparr>,
                      \<lparr>it_paid_date = (2024, 3, 31), it_amount = 50, it_candidate_name = ''Ann'',
                        it_client_name = ''Acme'', it_vacancy_title = ''Driver'',
                        it_recruiter_name = ''Bob'', it_application_id = 1, it_payment_id = 2\<rparr>]\<rparr>"
  by (simp add: get_earnings_def demo_selected)
     (simp add: demo_db_def report_line_def application_of_def pipeline_row_of_def
       candidate_name_of_def client_name_of_def recruiter_name_of_def vacancy_of_def
       list_payments_def less_eq_prod_def Let_def)

text \<open>
  Claim C3. For a month from 1 to 12, \<^verbatim>\<open>get_earnings\<close> returns a report, never an error.
  The payments it selects are exactly the stored payments whose \<^verbatim>\<open>paid_date\<close> lies
  between the first and the last day of the month, both included (for a date \<open>(y, m, d)\<close>:
  the year and the month are the requested ones and the day is between 1 and the last
  day), restricted to one recruiter when the scope asks for it; the total is the sum of
  the selected amounts, which is also the sum over the lines; there is one line per
  selected payment; and when nothing is selected the total is 0 and the list of lines is
  empty.
\<close>

theorem earnings_month_window:
  assumes m: "1 \<le> month" "month \<le> 12"
  shows "\<exists>rep. get_earnings d year month recruiter caller = Inr rep
     \<and> er_total rep = sum_list (map pm_amount (selected_payments d year month recruiter caller))
     \<and> er_total rep = sum_list (map it_amount (er_items rep))
     \<and> length (er_items rep) = length (selected_payments d year month recruiter caller)
     \<and> set (map it_payment_id (er_items rep))
         = pm_id ` set (selected_payments d year month recruiter caller)
     \<and> (\<forall>p. p \<in> set (selected_payments d year month recruiter caller) \<longleftrightarrow>
            p \<in> set (payments d)
            \<and> (year, month, 1) \<le> pm_paid_date p
            \<and> pm_paid_date p \<le> (year, month, days_in_month year month)
            \<and> payment_in_scope d (scoped_recruiter caller recruiter) p)
     \<and> (\<forall>y mo dd. in_month year month (y, mo, dd) \<longleftrightarrow>
            y = year \<and> mo = month \<and> 1 \<le> dd \<and> dd \<le> days_in_month year month)
     \<and> (selected_payments d year month recruiter caller = [] \<longrightarrow>
            er_total rep = 0 \<and> er_items rep = [])"
proof -
  define sel where "sel = selected_payments d year month recruiter caller"
  define rep where "rep = \<lparr>er_total = sum_list (map pm_amount sel),
      er_items = map (report_line d) (sort_key pm_paid_date (sort_key pm_id sel))\<rparr>"
  have g: "get_earnings d year month recruiter caller = Inr rep"
    using m by (simp add: get_earnings_def rep_def sel_def Let_def)
  have t1: "er_total rep = sum_list (map pm_amount sel)" by (simp add: rep_def)
  have t2: "er_total rep = sum_list (map it_amount (er_items rep))"
    by (simp add: rep_def comp_def it_amount_report_line sum_list_sort_key)
  have t3: "length (er_items rep) = length sel" by (simp add: rep_def)
  have t4: "set (map it_payment_id (er_items rep)) = pm_id ` set sel"
    by (simp add: rep_def comp_def it_payment_id_report_line)
  have t5: "\<forall>p. p \<in> set sel \<longleftrightarrow>
            p \<in> set (payments d)
            \<and> (year, month, 1) \<le> pm_paid_date p
            \<and> pm_paid_date p \<le> (year, month, days_in_month year month)
            \<and> payment_in_scope d (scoped_recruiter caller recruiter) p"
    by (auto simp: sel_def selected_payments_def in_month_def)
  have t6: "\<forall>y mo dd. in_month year month (y, mo, dd) \<longleftrightarrow>
            y = year \<and> mo = month \<and> 1 \<le> dd \<and> dd \<le> days_in_month year month"
    by (simp add: in_month_iff)
  have t7: "sel = [] \<longrightarrow> er_total rep = 0 \<and> er_items rep = []" by (simp add: rep_def)
  from g t1 t2 t3 t4 t5 t6 t7 show ?thesis unfolding sel_def by blast
qed

text \<open>
  With the three payments of the sample store, \<^verbatim>\<open>get_earnings(2024, 3)\<close> has total 150
  and two lines, those of payments 1 and 2, the payment of April left out; a month
  without payments has total 0 and no line.
\<close>

theorem earnings_month_window_witness:
  "(\<exists>rep. get_earnings demo_db 2024 3 None demo_admin = Inr rep
      \<and> er_total rep = 150 \<and> length (er_items rep) = 2
      \<and> set (map it_payment_id (er_items rep)) = {1, 2})
   \<and> (\<exists>rep. get_earnings demo_db 2023 7 None demo_admin = Inr rep
      \<and> er_total rep = 0 \<and> er_items rep = [])"
proof -
  have h1: "1 \<le> (3::nat)" and h2: "(3::nat) \<le> 12" by simp_all
  have h3: "1 \<le> (7::nat)" and h4: "(7::nat) \<le> 12" by simp_all
  have s1: "selected_payments demo_db 2024 3 None demo_admin = take 2 (payments demo_db)"
    by (rule demo_selected)
  have s2: "selected_payments demo_db 2023 7 None demo_admin = []"
    by (simp add: selected_payments_def demo_db_def in_month_def less_eq_prod_def)
  have a: "\<exists>rep. get_earnings demo_db 2024 3 None demo_admin = Inr rep
      \<and> er_total rep = 150 \<and> length (er_items rep) = 2
      \<and> set (map it_payment_id (er_items rep)) = {1, 2}"
    using earnings_month_window [OF h1 h2, of demo_db 2024 None demo_admin]
    unfolding s1 by (auto simp: demo_db_def)
  have b: "\<exists>rep. get_earnings demo_db 2023 7 None demo_admin = Inr rep
      \<and> er_total rep = 0 \<and> er_items rep = []"
    using earnings_month_window [OF h3 h4, of demo_db 2023 None demo_admin]
    unfolding s2 by auto
  from a b show ?thesis by (rule conjI)
qed

section \<open>Adding a payment\<close>

lemma backend_addPayment_invalid:
  "pp_paid_date p = None \<or> pp_amount p \<le> 0 \<Longrightarrow> backend_addPayment i p d = Inl ''ValidationError''"
  by (cases "pp_paid_date p") (auto simp: backend_addPayment_def)

lemma backend_addPayment_valid:
  "pp_paid_date p = Some paid \<Longrightarrow> 0 < pp_amount p \<Longrightarrow> application_of d i \<noteq> None \<Longrightarrow>
   backend_addPayment i p d = Inr (insert_payment d (new_payment d i paid p))"
  by (auto simp: backend_addPayment_def)

lemma add_payment_no_date:
  "openEditApp u = Some app \<Longrightarrow> pf_paid_date (payForm u) = None \<Longrightarrow>
   addPaymentToCurrent api today (u, d) = (u\<lparr>err := Some NeedPaymentDate\<rparr>, d)"
  by (simp add: addPaymentToCurrent_def Let_def)

lemma add_payment_bad_amount:
  "openEditApp u = Some app \<Longrightarrow> pf_paid_date (payForm u) \<noteq> None \<Longrightarrow> pf_amount (payForm u) \<le> 0 \<Longrightarrow>
   addPaymentToCurrent api today (u, d) = (u\<lparr>err := Some NeedPositiveAmount\<rparr>, d)"
  by (auto simp: addPaymentToCurrent_def Let_def)

lemma add_payment_sent:
  "openEditApp u = Some app \<Longrightarrow> pf_paid_date (payForm u) \<noteq> None \<Longrightarrow> 0 < pf_amount (payForm u) \<Longrightarrow>
   api_addPayment api (pr_id app) (payment_payload_of (payForm u)) d = Inr d1 \<Longrightarrow>
   snd (addPaymentToCurrent api today (u, d)) = d1"
  by (auto simp: addPaymentToCurrent_def Let_def split: sum.splits)

lemma add_payment_valid:
  assumes app: "openEditApp u = Some app" and paid: "pf_paid_date (payForm u) = Some paid"
    and amt: "0 < pf_amount (payForm u)" and ex: "application_of d (pr_id app) \<noteq> None"
  shows "snd (addPaymentToCurrent (backend caller) today (u, d))
     = insert_payment d (new_payment d (pr_id app) paid (payment_payload_of (payForm u)))"
proof -
  have "backend_addPayment (pr_id app) (payment_payload_of (payForm u)) d
      = Inr (insert_payment d (new_payment d (pr_id app) paid (payment_payload_of (payForm u))))"
    using paid amt ex by (intro backend_addPayment_valid) (simp_all add: payment_payload_of_def)
  then have "api_addPayment (backend caller) (pr_id app) (payment_payload_of (payForm u)) d
      = Inr (insert_payment d (new_payment d (pr_id app) paid (payment_payload_of (payForm u))))"
    by (simp add: backend_fields)
  from add_payment_sent [OF app _ amt this] paid show ?thesis by simp
qed

text \<open>
  Claim C5. While an application is being edited: when the payment date is missing or the
  amount is not above zero, \<^verbatim>\<open>addPaymentToCurrent\<close> sends no request, whatever the server
  is: the store is unchanged and the only change of the component state is the
  validation message. The server's \<^verbatim>\<open>add_payment\<close> itself answers such a request with a
  validation error and changes nothing. When the date is present and the amount is above
  zero (and the application exists), one new payment with that date, amount and note is
  appended to the payments.
\<close>

theorem add_payment_validation:
  assumes app: "openEditApp u = Some app"
  shows "(pf_paid_date (payForm u) = None \<or> pf_amount (payForm u) \<le> 0 \<longrightarrow>
            snd (addPaymentToCurrent api today (u, d)) = d
            \<and> (fst (addPaymentToCurrent api today (u, d)) = u\<lparr>err := Some NeedPaymentDate\<rparr>
               \<or> fst (addPaymentToCurrent api today (u, d)) = u\<lparr>err := Some NeedPositiveAmount\<rparr>))
       \<and> (pp_paid_date p = None \<or> pp_amount p \<le> 0 \<longrightarrow>
            backend_addPayment i p d = Inl ''ValidationError'')
       \<and> (pf_paid_date (payForm u) = Some paid \<and> 0 < pf_amount (payForm u)
           \<and> application_of d (pr_id app) \<noteq> None \<longrightarrow>
            payments (snd (addPaymentToCurrent (backend caller) today (u, d)))
              = payments d @ [\<lparr>pm_id = next_id d, pm_application_id = pr_id app, pm_paid_date = paid,
                   pm_amount = pf_amount (payForm u), pm_note = or_null (pf_note (payForm u)),
                   pm_created_at = now d\<rparr>])"
proof (intro conjI impI)
  assume bad: "pf_paid_date (payForm u) = None \<or> pf_amount (payForm u) \<le> 0"
  have r: "addPaymentToCurrent api today (u, d) = (u\<lparr>err := Some NeedPaymentDate\<rparr>, d)
      \<or> addPaymentToCurrent api today (u, d) = (u\<lparr>err := Some NeedPositiveAmount\<rparr>, d)"
    using bad add_payment_no_date [OF app] add_payment_bad_amount [OF app] by blast
  then show "snd (addPaymentToCurrent api today (u, d)) = d" by auto
  from r show "fst (addPaymentToCurrent api today (u, d)) = u\<lparr>err := Some NeedPaymentDate\<rparr>
      \<or> fst (addPaymentToCurrent api today (u, d)) = u\<lparr>err := Some NeedPositiveAmount\<rparr>"
    by auto
next
  assume "pp_paid_date p = None \<or> pp_amount p \<le> 0"
  then show "backend_addPayment i p d = Inl ''ValidationError''"
    by (rule backend_addPayment_invalid)
next
  assume ok: "pf_paid_date (payForm u) = Some paid \<and> 0 < pf_amount (payForm u)
           \<and> application_of d (pr_id app) \<noteq> None"
  then have "snd (addPaymentToCurrent (backend caller) today (u, d))
     = insert_payment d (new_payment d (pr_id app) paid (payment_payload_of (payForm u)))"
    using add_payment_valid [OF app] by blast
  then show "payments (snd (addPaymentToCurrent (backend caller) today (u, d)))
              = payments d @ [\<lparr>pm_id = next_id d, pm_application_id = pr_id app, pm_paid_date = paid,
                   pm_amount = pf_amount (payForm u), pm_note = or_null (pf_note (payForm u)),
                   pm_created_at = now d\<rparr>]"
    by (simp add: insert_payment_def new_payment_def payment_payload_of_def)
qed

text \<open>
  Application 2 of the sample store: an amount of 0 is refused and the store stays as it
  is; an amount of 250 appends payment 4.
\<close>

theorem add_payment_validation_witness:
  "snd (addPaymentToCurrent (backend demo_admin) (2024, 5, 2) (edit_ui 0, demo_db)) = demo_db
   \<and> err (fst (addPaymentToCurrent (backend demo_admin) (2024, 5, 2) (edit_ui 0, demo_db)))
       = Some NeedPositiveAmount
   \<and> payments (snd (addPaymentToCurrent (backend demo_admin) (2024, 5, 2) (edit_ui 250, demo_db)))
       = payments demo_db @ [\<lparr>pm_id = 4, pm_application_id = 2, pm_paid_date = (2024, 5, 2),
           pm_amount = 250, pm_note = Some ''part'', pm_created_at = 30\<rparr>]"
proof -
  have app: "\<And>x. openEditApp (edit_ui x) = Some (sample_row 2)"
    by (simp add: edit_ui_def)
  have pf: "\<And>x. pf_paid_date (payForm (edit_ui x)) = Some (2024, 5, 2)"
    "\<And>x. pf_amount (payForm (edit_ui x)) = x" "\<And>x. pf_note (payForm (edit_ui x)) = ''part''"
    by (simp_all add: edit_ui_def)
  have ex: "application_of demo_db (pr_id (sample_row 2)) \<noteq> None"
    by (simp add: application_of_def demo_db_def sample_row_def)
  note t0 = add_payment_validation [OF app, of 0 "backend demo_admin" "(2024, 5, 2)" demo_db
      "payment_payload_of (payForm (edit_ui 0))" 2 "(2024, 5, 2)" demo_admin]
  note t1 = add_payment_validation [OF app, of 250 "backend demo_admin" "(2024, 5, 2)" demo_db
      "payment_payload_of (payForm (edit_ui 250))" 2 "(2024, 5, 2)" demo_admin]
  have a: "snd (addPaymentToCurrent (backend demo_admin) (2024, 5, 2) (edit_ui 0, demo_db)) = demo_db"
    using t0 by (simp add: pf)
  have "addPaymentToCurrent (backend demo_admin) (2024, 5, 2) (edit_ui 0, demo_db)
      = ((edit_ui 0)\<lparr>err := Some NeedPositiveAmount\<rparr>, demo_db)"
    using add_payment_bad_amount [OF app, of 0 "backend demo_admin" "(2024, 5, 2)" demo_db]
    by (simp add: pf)
  then have b: "err (fst (addPaymentToCurrent (backend demo_admin) (2024, 5, 2) (edit_ui 0, demo_db)))
       = Some NeedPositiveAmount" by simp
  have "payments (snd (addPaymentToCurrent (backend demo_admin) (2024, 5, 2) (edit_ui 250, demo_db)))
       = payments demo_db @ [\<lparr>pm_id = next_id demo_db, pm_application_id = pr_id (sample_row 2),
           pm_paid_date = (2024, 5, 2), pm_amount = 250, pm_note = or_null ''part'',
           pm_created_at = now demo_db\<rparr>]"
    using t1 ex by (simp add: pf)
  moreover have "next_id demo_db = 4" "now demo_db = 30" "pr_id (sample_row 2) = 2"
    "or_null ''part'' = Some ''part''"
    by (simp_all add: demo_db_def sample_row_def or_null_def)
  ultimately have c: "payments (snd (addPaymentToCurrent (backend demo_admin) (2024, 5, 2) (edit_ui 250, demo_db)))
       = payments demo_db @ [\<lparr>pm_id = 4, pm_application_id = 2, pm_paid_date = (2024, 5, 2),
           pm_amount = 250, pm_note = Some ''part'', pm_created_at = 30\<rparr>]"
    by simp
  from a b c show ?thesis by simp
qed

section \<open>Creating and saving an application\<close>

lemma backend_createCandidate_eq:
  "backend_createCandidate p d = Inr (new_candidate d p, insert_candidate d (new_candidate d p))"
  by (simp add: backend_createCandidate_def Let_def)







lemma submit_invalid:
  "addFormError (addForm u) = Some e \<Longrightarrow>
   submitAddApplication api today (u, d) = (u\<lparr>err := Some e\<rparr>, d)"
  by (simp add: submitAddApplication_def Let_def)

lemma submit_candidate_fails:
  "addFormError (addForm u) = None \<Longrightarrow>
   api_createCandidate api (candidate_payload_of (addForm u)) d = Inl e \<Longrightarrow>
   submitAddApplication api today (u, d) = (u\<lparr>err := Some (ApiError e), loading := False\<rparr>, d)"
  by (simp add: submitAddApplication_def Let_def)

lemma submit_application_fails:
  "addFormError (addForm u) = None \<Longrightarrow>
   api_createCandidate api (candidate_payload_of (addForm u)) d = Inr (c, d1) \<Longrightarrow>
   api_createApplication api (application_payload_of (addForm u) (cd_id c)) d1 = Inl e \<Longrightarrow>
   submitAddApplication api today (u, d) = (u\<lparr>err := Some (ApiError e), loading := False\<rparr>, d1)"
  by (simp add: submitAddApplication_def Let_def)

lemma submit_succeeds:
  "addFormError (addForm u) = None \<Longrightarrow>
   api_createCandidate api (candidate_payload_of (addForm u)) d = Inr (c, d1) \<Longrightarrow>
   api_createApplication api (application_payload_of (addForm u) (cd_id c)) d1 = Inr d2 \<Longrightarrow>
   snd (submitAddApplication api today (u, d)) = d2"
  by (simp add: submitAddApplication_def Let_def)



















section \<open>The two requests of a submit\<close>

lemma cleared_form_ok: "addFormError (addForm cleared_date_ui) = None"
  by (simp add: cleared_date_ui_def demo_ui_def addFormError_def demo_form_def trim_def
      is_space_def truthy_id_def)

lemma cleared_candidate:
  "api_createCandidate (backend demo_admin) (candidate_payload_of (addForm cleared_date_ui)) demo_db
     = Inr (zoe, insert_candidate demo_db zoe)"
proof -
  have "new_candidate demo_db (candidate_payload_of (addForm cleared_date_ui)) = zoe"
    by (simp add: new_candidate_def candidate_payload_of_def cleared_date_ui_def demo_ui_def
        demo_form_def demo_db_def trim_def is_space_def or_null_def zoe_def)
  then show ?thesis by (simp add: backend_fields backend_createCandidate_eq)
qed

lemma cleared_application:
  "api_createApplication (backend demo_admin)
      (application_payload_of (addForm cleared_date_ui) (cd_id zoe)) (insert_candidate demo_db zoe)
     = Inl ''ValidationError''"
  by (simp add: backend_fields backend_createApplication_def application_payload_of_def
      cleared_date_ui_def demo_ui_def demo_form_def)

lemma cleared_run:
  "submitAddApplication (backend demo_admin) (2024, 5, 2) (cleared_date_ui, demo_db)
     = (cleared_date_ui\<lparr>err := Some (ApiError ''ValidationError''), loading := False\<rparr>,
        insert_candidate demo_db zoe)"
  by (rule submit_application_fails [OF cleared_form_ok cleared_candidate cleared_application])

text \<open>
  Claim C7, as the code has it. \<^verbatim>\<open>submitAddApplication\<close> sends two separate requests.
  When a check of the form fails, nothing is sent and the store is unchanged; when
  creating the candidate fails, the store is unchanged; when the candidate was created
  and creating the application fails, the store is left as it was after the first
  request, with the new candidate in it, and the error message is shown: no request
  undoes the first one; when both succeed the store is the one after the second
  request.
\<close>

theorem submit_two_requests:
  "(addFormError (addForm u) = Some e \<longrightarrow>
      submitAddApplication api today (u, d) = (u\<lparr>err := Some e\<rparr>, d))
   \<and> (addFormError (addForm u) = None
       \<and> api_createCandidate api (candidate_payload_of (addForm u)) d = Inl e1 \<longrightarrow>
      submitAddApplication api today (u, d) = (u\<lparr>err := Some (ApiError e1), loading := False\<rparr>, d))
   \<and> (addFormError (addForm u) = None
       \<and> api_createCandidate api (candidate_payload_of (addForm u)) d = Inr (c, d1)
       \<and> api_createApplication api (application_payload_of (addForm u) (cd_id c)) d1 = Inl e2 \<longrightarrow>
      submitAddApplication api today (u, d) = (u\<lparr>err := Some (ApiError e2), loading := False\<rparr>, d1))
   \<and> (addFormError (addForm u) = None
       \<and> api_createCandidate api (candidate_payload_of (addForm u)) d = Inr (c, d1)
       \<and> api_createApplication api (application_payload_of (addForm u) (cd_id c)) d1 = Inr d2 \<longrightarrow>
      snd (submitAddApplication api today (u, d)) = d2)"
  by (simp add: submit_invalid submit_candidate_fails submit_application_fails submit_succeeds)

text \<open>
  The form with the contact date cleared: the candidate is created, the application is
  refused, and the store keeps the candidate.
\<close>

theorem submit_two_requests_witness:
  "submitAddApplication (backend demo_admin) (2024, 5, 2) (cleared_date_ui, demo_db)
     = (cleared_date_ui\<lparr>err := Some (ApiError ''ValidationError''), loading := False\<rparr>,
        insert_candidate demo_db zoe)"
  using submit_two_requests [of cleared_date_ui NeedVacancy "backend demo_admin" "(2024, 5, 2)" demo_db
      "''x''" zoe "insert_candidate demo_db zoe" "''ValidationError''" demo_db]
    cleared_form_ok cleared_candidate cleared_application
  by simp

text \<open>
  Claim C7 as worded fails there: after the failed submit the candidates are 1, 2 and the
  new candidate 4, while the applications still refer to candidates 1 and 2 only.
\<close>

theorem orphan_candidate_counterexample:
  "map cd_id (candidates (snd (submitAddApplication (backend demo_admin) (2024, 5, 2) (cleared_date_ui, demo_db))))
     = [1, 2, 4]
   \<and> map ap_candidate_id (applications (snd (submitAddApplication (backend demo_admin) (2024, 5, 2) (cleared_date_ui, demo_db))))
     = [1, 2]
   \<and> err (fst (submitAddApplication (backend demo_admin) (2024, 5, 2) (cleared_date_ui, demo_db)))
     = Some (ApiError ''ValidationError'')"
  unfolding cleared_run by (simp add: demo_db_def insert_candidate_def zoe_def)

end
